theory Spec2Isabelle
  imports Main
begin

section \<open>JavaScript strings\<close>

text \<open>
  A JavaScript string is a sequence of UTF-16 code units. The development models it as a
  \<^typ>\<open>string\<close>, one \<^typ>\<open>char\<close> per code unit, and so covers the texts whose code
  units lie in U+0000..U+00FF. Inside that range the character classes below are the ones
  of ECMAScript: \<open>\s\<close> (and \<open>trim\<close>) is TAB, LF, VT, FF, CR, SPACE and NBSP; a line
  terminator is LF or CR; \<open>\w\<close> is \<open>[A-Za-z0-9_]\<close>.
\<close>

definition charCode :: "char \<Rightarrow> nat" where
  "charCode c = of_char c"

definition isWhiteSpace :: "char \<Rightarrow> bool" where
  "isWhiteSpace c = (charCode c \<in> {9, 10, 11, 12, 13, 32, 160})"

definition isLineTerminator :: "char \<Rightarrow> bool" where
  "isLineTerminator c = (charCode c = 10 \<or> charCode c = 13)"

definition isWordChar :: "char \<Rightarrow> bool" where
  "isWordChar c = (let n = charCode c in
     (65 \<le> n \<and> n \<le> 90) \<or> (97 \<le> n \<and> n \<le> 122) \<or> (48 \<le> n \<and> n \<le> 57) \<or> n = 95)"

text \<open>The character class \<open>[`~]\<close> of the fence patterns.\<close>

definition isFenceChar :: "char \<Rightarrow> bool" where
  "isFenceChar c = (c = CHR ''`'' \<or> c = CHR ''~'')"

definition trimStart :: "string \<Rightarrow> string" where
  "trimStart s = dropWhile isWhiteSpace s"

definition trimEnd :: "string \<Rightarrow> string" where
  "trimEnd s = rev (dropWhile isWhiteSpace (rev s))"

definition trim :: "string \<Rightarrow> string" where
  "trim s = trimEnd (trimStart s)"

definition startsWith :: "string \<Rightarrow> string \<Rightarrow> bool" where
  "startsWith s p = (take (length p) s = p)"

text \<open>\<open>s.includes(p)\<close>: \<open>p\<close> occurs in \<open>s\<close> at some index.\<close>

fun includesStr :: "string \<Rightarrow> string \<Rightarrow> bool" where
  "includesStr [] p = (p = [])"
| "includesStr (c # cs) p = (startsWith (c # cs) p \<or> includesStr cs p)"

text \<open>\<open>s.indexOf(p)\<close> and \<open>s.lastIndexOf(p)\<close>; \<open>None\<close> is the \<open>-1\<close> of JavaScript.\<close>

fun indexOf :: "string \<Rightarrow> string \<Rightarrow> nat option" where
  "indexOf [] p = (if p = [] then Some 0 else None)"
| "indexOf (c # cs) p =
     (if startsWith (c # cs) p then Some 0
      else (case indexOf cs p of None \<Rightarrow> None | Some i \<Rightarrow> Some (Suc i)))"

fun lastIndexOf :: "string \<Rightarrow> string \<Rightarrow> nat option" where
  "lastIndexOf [] p = (if p = [] then Some 0 else None)"
| "lastIndexOf (c # cs) p =
     (case lastIndexOf cs p of
        Some i \<Rightarrow> Some (Suc i)
      | None \<Rightarrow> (if startsWith (c # cs) p then Some 0 else None))"

text \<open>\<open>s.split('\n')\<close>: never empty, \<open>''.split('\n')\<close> is \<open>['']\<close>.\<close>

fun split :: "char \<Rightarrow> string \<Rightarrow> string list" where
  "split d [] = [[]]"
| "split d (c # cs) =
     (case split d cs of
        [] \<Rightarrow> (if c = d then [[], []] else [[c]])
      | l # ls \<Rightarrow> (if c = d then [] # l # ls else (c # l) # ls))"

text \<open>\<open>xs.join(sep)\<close>.\<close>

fun join :: "string \<Rightarrow> string list \<Rightarrow> string" where
  "join sep [] = []"
| "join sep [x] = x"
| "join sep (x # y # ys) = x @ sep @ join sep (y # ys)"

text \<open>
  \<open>toLowerCase\<close> stays inside the range: \<open>A-Z\<close> and U+00C0..U+00DE (but the
  multiplication sign U+00D7) move up by 32. \<open>toUpperCase\<close> maps \<open>a-z\<close> and
  U+00E0..U+00FE (but the division sign U+00F7) down by 32 and the sharp s U+00DF to \<open>SS\<close>.
  The upper-case forms of U+00B5 and U+00FF lie outside the range; they are left as they
  are, which, like their true images, are no ASCII letters.
\<close>

definition lowerChar :: "char \<Rightarrow> char" where
  "lowerChar c = (let n = charCode c in
     if (65 \<le> n \<and> n \<le> 90) \<or> (192 \<le> n \<and> n \<le> 222 \<and> n \<noteq> 215) then char_of (n + 32) else c)"

definition toLowerCase :: "string \<Rightarrow> string" where
  "toLowerCase s = map lowerChar s"

definition upperChar :: "char \<Rightarrow> string" where
  "upperChar c = (let n = charCode c in
     if (97 \<le> n \<and> n \<le> 122) \<or> (224 \<le> n \<and> n \<le> 254 \<and> n \<noteq> 247) then [char_of (n - 32)]
     else if n = 223 then ''SS'' else [c])"

definition toUpperCase :: "string \<Rightarrow> string" where
  "toUpperCase s = concat (map upperChar s)"

text \<open>Decimal rendering of a number in a template literal.\<close>

fun digits :: "nat \<Rightarrow> nat \<Rightarrow> string" where
  "digits 0 n = []"
| "digits (Suc f) n =
     (if n < 10 then [char_of (48 + n)] else digits f (n div 10) @ [char_of (48 + n mod 10)])"

definition showNat :: "nat \<Rightarrow> string" where
  "showNat n = digits (Suc n) n"

section \<open>The response parser (parser/markdown.ts)\<close>

datatype ToolName =
    LIST_DIRECTORY | READ_FILE | WRITE_FILE | FIND_AND_REPLACE_IN_FILE
  | COMMAND | UPDATE_TASK_LIST | ASK_USER | DONE
  | READ_BACKGROUND_PROCESS | LIST_BACKGROUND_PROCESSES | KILL_BACKGROUND_PROCESS

datatype TaskStatus = Pending | InProgress | Complete

record TaskItem =
  status :: TaskStatus
  caption :: string

record ToolCall =
  toolChoice :: ToolName
  toolInput :: string

text \<open>
  \<open>ParsedResponse\<close>. The two single-tool accessors of the interface, \<open>toolChoice\<close> and
  \<open>toolInput\<close>, are the fields \<open>firstToolChoice\<close> and \<open>firstToolInput\<close>; the field
  \<open>text\<close> of a task item is \<open>caption\<close>.
\<close>

record ParsedResponse =
  thoughts :: string
  tasks :: "TaskItem list"
  tools :: "ToolCall list"
  raw :: string
  firstToolChoice :: ToolName
  firstToolInput :: string

definition toolNameString :: "ToolName \<Rightarrow> string" where
  "toolNameString t = (case t of
       LIST_DIRECTORY \<Rightarrow> ''LIST_DIRECTORY'' | READ_FILE \<Rightarrow> ''READ_FILE''
     | WRITE_FILE \<Rightarrow> ''WRITE_FILE'' | FIND_AND_REPLACE_IN_FILE \<Rightarrow> ''FIND_AND_REPLACE_IN_FILE''
     | COMMAND \<Rightarrow> ''COMMAND'' | UPDATE_TASK_LIST \<Rightarrow> ''UPDATE_TASK_LIST''
     | ASK_USER \<Rightarrow> ''ASK_USER'' | DONE \<Rightarrow> ''DONE''
     | READ_BACKGROUND_PROCESS \<Rightarrow> ''READ_BACKGROUND_PROCESS''
     | LIST_BACKGROUND_PROCESSES \<Rightarrow> ''LIST_BACKGROUND_PROCESSES''
     | KILL_BACKGROUND_PROCESS \<Rightarrow> ''KILL_BACKGROUND_PROCESS'')"

definition TOOL_NAMES :: "ToolName list" where
  "TOOL_NAMES = [LIST_DIRECTORY, READ_FILE, WRITE_FILE, FIND_AND_REPLACE_IN_FILE,
     COMMAND, UPDATE_TASK_LIST, ASK_USER, DONE,
     READ_BACKGROUND_PROCESS, LIST_BACKGROUND_PROCESSES, KILL_BACKGROUND_PROCESS]"

text \<open>\<open>TOOL_NAMES.includes(s)\<close>, returning the name found.\<close>

definition lookupToolName :: "string \<Rightarrow> ToolName option" where
  "lookupToolName s = find (\<lambda>t. toolNameString t = s) TOOL_NAMES"

datatype Section = NoSection | SecThoughts | SecTaskList | SecToolChoice | SecToolInput

text \<open>
  The local variables of \<open>parseResponse\<close>. \<open>fenceChar\<close> is a string as in the source:
  empty at first, then the one character that opened the block.
\<close>

record ParserState =
  accThoughts :: string
  accTaskList :: "TaskItem list"
  accTools :: "ToolCall list"
  currentSection :: Section
  currentTool :: "ToolName option"
  currentInput :: string
  inCodeBlock :: bool
  fenceChar :: string
  fenceLen :: nat

definition initialParserState :: ParserState where
  "initialParserState = \<lparr> accThoughts = [], accTaskList = [], accTools = [],
     currentSection = NoSection, currentTool = None, currentInput = [],
     inCodeBlock = False, fenceChar = [], fenceLen = 0 \<rparr>"

definition finishCurrentTool :: "ParserState \<Rightarrow> ParserState" where
  "finishCurrentTool st =
     (case currentTool st of
        Some t \<Rightarrow> st\<lparr> accTools := accTools st @ [\<lparr> toolChoice = t, toolInput = trim (currentInput st) \<rparr>],
                      currentTool := None, currentInput := [] \<rparr>
      | None \<Rightarrow> st)"

text \<open>
  \<open>line.match(/^([`~]{3,})/)\<close>: the longest run of backticks and tildes at the start of
  the line (the class admits both characters in one run), when it has three or more.
\<close>

definition fenceMatch :: "string \<Rightarrow> string option" where
  "fenceMatch line = (let run = takeWhile isFenceChar line in
     if 3 \<le> length run then Some run else None)"

text \<open>\<open>line.trim().match(/^[`~]+$/)\<close>.\<close>

definition onlyFenceChars :: "string \<Rightarrow> bool" where
  "onlyFenceChars line = (trim line \<noteq> [] \<and> list_all isFenceChar (trim line))"

definition isClosingFence :: "ParserState \<Rightarrow> string \<Rightarrow> string \<Rightarrow> bool" where
  "isClosingFence st run line =
     (take 1 run = fenceChar st \<and> fenceLen st \<le> length run \<and> onlyFenceChars line)"

text \<open>The fence tracking at the head of the loop body.\<close>

definition trackFence :: "ParserState \<Rightarrow> string \<Rightarrow> ParserState" where
  "trackFence st line =
     (case fenceMatch line of
        None \<Rightarrow> st
      | Some run \<Rightarrow>
          if \<not> inCodeBlock st
          then st\<lparr> inCodeBlock := True, fenceChar := take 1 run, fenceLen := length run \<rparr>
          else if isClosingFence st run line
          then st\<lparr> inCodeBlock := False, fenceLen := 0 \<rparr>
          else st)"

text \<open>
  \<open>line.match(/^\[([x~\s])\]\s*(.+)$/i)\<close>, giving the two groups. The pattern has no
  \<open>m\<close> flag: \<open>$\<close> is the end of the line and \<open>.\<close> refuses line terminators.
  \<open>\s*\<close> is greedy: it takes the blanks that lead the rest of the line, and gives the
  last one back to \<open>(.+)\<close> when nothing else is left.
\<close>

definition taskMatch :: "string \<Rightarrow> (char \<times> string) option" where
  "taskMatch line =
     (case line of
        b # m # e # rest \<Rightarrow>
          if b = CHR ''['' \<and> (m = CHR ''x'' \<or> m = CHR ''X'' \<or> m = CHR ''~'' \<or> isWhiteSpace m)
             \<and> e = CHR '']''
          then (if trimStart rest \<noteq> []
                then (if list_ex isLineTerminator (trimStart rest) then None
                      else Some (m, trimStart rest))
                else (if rest \<noteq> [] \<and> \<not> isLineTerminator (last rest)
                      then Some (m, [last rest]) else None))
          else None
      | _ \<Rightarrow> None)"

definition taskItemOf :: "char \<times> string \<Rightarrow> TaskItem" where
  "taskItemOf g = \<lparr> status = (if fst g = CHR ''x'' then Complete
                               else if fst g = CHR ''~'' then InProgress else Pending),
                    caption = trim (snd g) \<rparr>"

text \<open>The \<open>switch (currentSection)\<close> at the end of the loop body.\<close>

definition collectLine :: "ParserState \<Rightarrow> string \<Rightarrow> ParserState" where
  "collectLine st line =
     (case currentSection st of
        SecThoughts \<Rightarrow>
          st\<lparr> accThoughts := accThoughts st @ (if accThoughts st \<noteq> [] then ''\<newline>'' else []) @ line \<rparr>
      | SecTaskList \<Rightarrow>
          (case taskMatch line of
             Some g \<Rightarrow> st\<lparr> accTaskList := accTaskList st @ [taskItemOf g] \<rparr>
           | None \<Rightarrow> st)
      | SecToolChoice \<Rightarrow>
          (if currentTool st = None
           then (case lookupToolName (toUpperCase (trim line)) of
                   Some t \<Rightarrow> st\<lparr> currentTool := Some t \<rparr>
                 | None \<Rightarrow> st)
           else st)
      | SecToolInput \<Rightarrow>
          st\<lparr> currentInput := currentInput st @ (if currentInput st \<noteq> [] then ''\<newline>'' else []) @ line \<rparr>
      | NoSection \<Rightarrow> st)"

definition isToolChoiceHeader :: "string \<Rightarrow> bool" where
  "isToolChoiceHeader line = startsWith line ''## Tool Choice''"

definition isToolInputHeader :: "string \<Rightarrow> bool" where
  "isToolInputHeader line = startsWith line ''## Tool Input''"

definition shouldRecognizeHeader :: "ParserState \<Rightarrow> string \<Rightarrow> bool" where
  "shouldRecognizeHeader st line =
     (\<not> inCodeBlock st \<or>
      (currentSection st = SecToolInput \<and> (isToolChoiceHeader line \<or> isToolInputHeader line)))"

text \<open>The header recognition and what follows it, on the state left by the fence tracking.\<close>

definition handleLine :: "ParserState \<Rightarrow> string \<Rightarrow> ParserState" where
  "handleLine st line =
     (if shouldRecognizeHeader st line then
        if startsWith line ''## Thoughts''
        then (finishCurrentTool st)\<lparr> currentSection := SecThoughts, inCodeBlock := False \<rparr>
        else if startsWith line ''## Task List''
        then (finishCurrentTool st)\<lparr> currentSection := SecTaskList, inCodeBlock := False \<rparr>
        else if isToolChoiceHeader line
        then (finishCurrentTool st)\<lparr> currentSection := SecToolChoice, inCodeBlock := False \<rparr>
        else if isToolInputHeader line
        then st\<lparr> currentSection := SecToolInput, inCodeBlock := False \<rparr>
        else collectLine st line
      else collectLine st line)"

text \<open>One turn of \<open>for (const line of lines)\<close>.\<close>

definition parseLine :: "ParserState \<Rightarrow> string \<Rightarrow> ParserState" where
  "parseLine st line = handleLine (trackFence st line) line"

definition parseResponse :: "string \<Rightarrow> ParsedResponse option" where
  "parseResponse fullResponse =
     (case lastIndexOf fullResponse ''# Agent Response'' of
        None \<Rightarrow> None
      | Some lastIdx \<Rightarrow>
          let section = drop lastIdx fullResponse;
              st = finishCurrentTool (foldl parseLine initialParserState (split CHR ''\<newline>'' section))
          in (case accTools st of
                [] \<Rightarrow> None
              | t # ts \<Rightarrow> Some \<lparr> thoughts = trim (accThoughts st), tasks = accTaskList st,
                                 tools = t # ts, raw = section,
                                 firstToolChoice = toolChoice t, firstToolInput = toolInput t \<rparr>))"

subsection \<open>The extractors\<close>

text \<open>
  \<open>input.match(/^"([^"]+)"|^([^\n]+)/)\<close> and \<open>(match?.[1] || match?.[2] || '').trim()\<close>:
  a quoted span at the very start of the input, else the first line.
\<close>

definition extractPath :: "string \<Rightarrow> string" where
  "extractPath input =
     trim (case input of
             [] \<Rightarrow> []
           | q # rest \<Rightarrow>
               let quoted = takeWhile (\<lambda>c. c \<noteq> CHR 0x22) rest
               in if q = CHR 0x22 \<and> quoted \<noteq> [] \<and> length quoted < length rest
                  then quoted
                  else takeWhile (\<lambda>c. c \<noteq> CHR ''\<newline>'') input)"

text \<open>
  The opening pattern \<open>/^([`~]{3,})\w*\s*$/im\<close> tried at one line start. The three
  classes are disjoint, so the fence run and the word run are the longest ones. \<open>\s*\<close>
  runs over line terminators too: it stops at the end of the input, or else is cut back
  to just before the last line terminator it ran over, where \<open>$\<close> holds. The result is
  the first group and the length of the match.
\<close>

fun lastLineTerminator :: "string \<Rightarrow> nat option" where
  "lastLineTerminator [] = None"
| "lastLineTerminator (c # cs) =
     (case lastLineTerminator cs of
        Some i \<Rightarrow> Some (Suc i)
      | None \<Rightarrow> (if isLineTerminator c then Some 0 else None))"

text \<open>\<open>\s*$\<close> under the \<open>m\<close> flag on the text \<open>s\<close>: the number of characters taken.\<close>

definition blankToLineEnd :: "string \<Rightarrow> nat option" where
  "blankToLineEnd s =
     (let ws = takeWhile isWhiteSpace s
      in if dropWhile isWhiteSpace s = [] then Some (length ws) else lastLineTerminator ws)"

definition openAt :: "string \<Rightarrow> (string \<times> nat) option" where
  "openAt s =
     (let run = takeWhile isFenceChar s;
          word = takeWhile isWordChar (dropWhile isFenceChar s)
      in if length run < 3 then None
         else (case blankToLineEnd (dropWhile isWordChar (dropWhile isFenceChar s)) of
                 None \<Rightarrow> None
               | Some k \<Rightarrow> Some (run, length run + length word + k)))"

text \<open>
  \<open>input.match(fencePattern)\<close>: the leftmost line start where the pattern matches, as
  (index, first group, length of the match). \<open>atStart\<close> says whether \<open>^\<close> holds at
  the head of the text: at index 0 and after every line terminator.
\<close>

fun searchOpen :: "bool \<Rightarrow> string \<Rightarrow> (nat \<times> string \<times> nat) option" where
  "searchOpen atStart [] = None"
| "searchOpen atStart (c # cs) =
     (case (if atStart then openAt (c # cs) else None) of
        Some (run, len) \<Rightarrow> Some (0, run, len)
      | None \<Rightarrow>
          (case searchOpen (isLineTerminator c) cs of
             Some (i, run, len) \<Rightarrow> Some (Suc i, run, len)
           | None \<Rightarrow> None))"

text \<open>The closing pattern \<open>^c{3,}\s*$\<close> (flags \<open>gm\<close>) tried at one line start: the length of the match.\<close>

definition closeAt :: "char \<Rightarrow> string \<Rightarrow> nat option" where
  "closeAt fc s =
     (let run = takeWhile (\<lambda>c. c = fc) s
      in if length run < 3 then None
         else (case blankToLineEnd (dropWhile (\<lambda>c. c = fc) s) of
                 None \<Rightarrow> None
               | Some k \<Rightarrow> Some (length run + k)))"

fun searchClose :: "char \<Rightarrow> bool \<Rightarrow> string \<Rightarrow> (nat \<times> nat) option" where
  "searchClose fc atStart [] = None"
| "searchClose fc atStart (c # cs) =
     (case (if atStart then closeAt fc (c # cs) else None) of
        Some len \<Rightarrow> Some (0, len)
      | None \<Rightarrow>
          (case searchClose fc (isLineTerminator c) cs of
             Some (i, len) \<Rightarrow> Some (Suc i, len)
           | None \<Rightarrow> None))"

text \<open>
  \<open>closePattern.exec(remaining)\<close> with the pattern's \<open>lastIndex\<close>: the search starts
  at \<open>lastIndex\<close>, where \<open>^\<close> holds if the character before is a line terminator.
\<close>

definition exec :: "char \<Rightarrow> string \<Rightarrow> nat \<Rightarrow> (nat \<times> nat) option" where
  "exec fc remaining lastIndex =
     (if length remaining < lastIndex then None
      else (case searchClose fc (lastIndex = 0 \<or> isLineTerminator (remaining ! (lastIndex - 1)))
                   (drop lastIndex remaining) of
              None \<Rightarrow> None
            | Some (i, len) \<Rightarrow> Some (lastIndex + i, len)))"

text \<open>
  \<open>while ((match = closePattern.exec(remaining)) !== null) lastMatch = match\<close>: every
  match moves \<open>lastIndex\<close> to its end; the loop returns the index of the last match.
\<close>

function execLoop :: "char \<Rightarrow> string \<Rightarrow> nat \<Rightarrow> nat option \<Rightarrow> nat option" where
  "execLoop fc remaining lastIndex lastMatch =
     (case exec fc remaining lastIndex of
        None \<Rightarrow> lastMatch
      | Some (i, len) \<Rightarrow> execLoop fc remaining (i + len) (Some i))"
  by pat_completeness auto
termination
proof (relation "measure (\<lambda>(fc, remaining, lastIndex, lastMatch). Suc (length remaining) - lastIndex)")
  show "wf (measure (\<lambda>(fc, remaining, lastIndex, lastMatch). Suc (length remaining) - lastIndex))"
    by simp
next
  fix fc :: char and remaining :: string and lastIndex :: nat and lastMatch :: "nat option"
    and x2 :: "nat \<times> nat" and i len :: nat
  assume "exec fc remaining lastIndex = Some x2" and "(i, len) = x2"
  then have found: "exec fc remaining lastIndex = Some (i, len)" by simp
  have close_length: "3 \<le> l" if "closeAt fc s = Some l" for s l
    using that by (auto simp: closeAt_def Let_def split: if_splits option.splits)
  have search_length: "searchClose fc b s = Some (k, l) \<Longrightarrow> 3 \<le> l" for b s k l
  proof (induction s arbitrary: b k)
    case Nil
    then show ?case by simp
  next
    case (Cons c cs)
    then show ?case
      by (auto split: option.splits if_splits dest: close_length)
  qed
  from found have "lastIndex \<le> length remaining \<and> lastIndex \<le> i \<and> 3 \<le> len"
    by (auto simp: exec_def split: if_splits option.splits dest: search_length)
  then have "Suc (length remaining) - (i + len) < Suc (length remaining) - lastIndex"
    by arith
  then show "((fc, remaining, i + len, Some i), (fc, remaining, lastIndex, lastMatch))
          \<in> measure (\<lambda>(fc, remaining, lastIndex, lastMatch). Suc (length remaining) - lastIndex)"
    by simp
qed

declare execLoop.simps [simp del]

text \<open>
  \<open>extractCodeBlock(input)\<close>. Every caller leaves the optional \<open>lang\<close> out, and so does
  the model. \<open>startIdx\<close> steps over the character after the match (\<open>+ 1\<close>); a
  \<open>slice\<close> from beyond the end is empty.
\<close>

definition extractCodeBlock :: "string \<Rightarrow> string option" where
  "extractCodeBlock input =
     (case searchOpen True input of
        None \<Rightarrow> None
      | Some (index, run, len) \<Rightarrow>
          (case run of
             [] \<Rightarrow> None
           | fc # _ \<Rightarrow>
               let startIdx = index + len + 1;
                   remaining = drop startIdx input
               in (case execLoop fc remaining 0 None of
                     None \<Rightarrow> None
                   | Some idx \<Rightarrow> Some (trimEnd (take idx remaining)))))"

text \<open>
  \<open>input.match(/```find\n([\s\S]*?)```/i)\<close> and its twin for \<open>replace\<close>: the first
  opener in any letter case, and the text up to the first three backticks after it.
\<close>

definition lazyBlock :: "string \<Rightarrow> string \<Rightarrow> string option" where
  "lazyBlock tag input =
     (let opener = ''```'' @ tag @ ''\<newline>''
      in case indexOf (toLowerCase input) opener of
           None \<Rightarrow> None
         | Some i \<Rightarrow>
             (let rest = drop (i + length opener) input
              in case indexOf rest ''```'' of
                   None \<Rightarrow> None
                 | Some j \<Rightarrow> Some (take j rest)))"

definition extractFindReplace :: "string \<Rightarrow> (string \<times> string) option" where
  "extractFindReplace input =
     (case (lazyBlock ''find'' input, lazyBlock ''replace'' input) of
        (Some f, Some r) \<Rightarrow> Some (trimEnd f, trimEnd r)
      | _ \<Rightarrow> None)"

definition extractCommandInput :: "string \<Rightarrow> string" where
  "extractCommandInput input =
     (case extractCodeBlock input of Some codeBlock \<Rightarrow> codeBlock | None \<Rightarrow> input)"

section \<open>Sessions, configuration and the world outside\<close>

datatype Role = System | User | Assistant

record Message =
  role :: Role
  content :: string

record Compression =
  timestamp :: string
  tokensBefore :: nat
  tokensAfter :: nat

text \<open>\<open>Session\<close> (sessions/index.ts); the field \<open>id\<close> is \<open>sessionId\<close>.\<close>

record Session =
  sessionId :: string
  createdAt :: string
  updatedAt :: string
  workingDirectory :: string
  originalPrompt :: string
  taskList :: "TaskItem list"
  history :: "Message list"
  totalTokens :: nat
  compressions :: "Compression list"

text \<open>The fields of \<open>Config\<close> that the agent reads.\<close>

record Config =
  maxContextTokens :: nat
  commandTimeout :: nat
  maxRetries :: nat
  maxRetriesAutomated :: nat
  maxLoops :: nat

record ToolContext =
  cwd :: string
  automated :: bool

text \<open>
  The agent acts on a world outside: the model behind the chat endpoint, the file system,
  the child processes, the terminal, the clock. The world is a state of an arbitrary type
  \<open>'w\<close>, and the operations on it that the agent calls are the fields of an
  environment. An operation that can throw returns \<open>Inl\<close> of the error's message,
  \<open>Inr\<close> of its result otherwise. \<open>question\<close> is \<open>rl.question\<close>, \<open>nowISO\<close> is
  \<open>new Date().toISOString()\<close>, \<open>writeSession\<close> the file writes of \<open>saveSession\<close>;
  the prompt texts of agent/prompt.ts are taken as they come.
\<close>

record 'w Env =
  loadConfig :: "'w \<Rightarrow> Config"
  streamCompletion :: "Message list \<Rightarrow> 'w \<Rightarrow> (string + string) \<times> 'w"
  getTokenCount :: "'w \<Rightarrow> nat"
  listDirectory :: "string \<Rightarrow> string \<Rightarrow> 'w \<Rightarrow> (string + string) \<times> 'w"
  readFile :: "string \<Rightarrow> string \<Rightarrow> 'w \<Rightarrow> (string + string) \<times> 'w"
  writeFile :: "string \<Rightarrow> string \<Rightarrow> string \<Rightarrow> 'w \<Rightarrow> (string + string) \<times> 'w"
  findAndReplace :: "string \<Rightarrow> string \<Rightarrow> string \<Rightarrow> string \<Rightarrow> 'w \<Rightarrow> (string + string) \<times> 'w"
  executeCommand :: "string \<Rightarrow> string \<Rightarrow> 'w \<Rightarrow> (string + string) \<times> 'w"
  readBackgroundProcess :: "string \<Rightarrow> 'w \<Rightarrow> (string + string) \<times> 'w"
  listBackgroundProcesses :: "'w \<Rightarrow> (string + string) \<times> 'w"
  killBackgroundProcess :: "string \<Rightarrow> 'w \<Rightarrow> (string + string) \<times> 'w"
  question :: "string \<Rightarrow> 'w \<Rightarrow> string \<times> 'w"
  isVerbose :: "'w \<Rightarrow> bool"
  isThinkingEnabled :: "'w \<Rightarrow> bool"
  nowISO :: "'w \<Rightarrow> string"
  writeSession :: "Session \<Rightarrow> 'w \<Rightarrow> 'w"
  buildSystemPrompt :: "bool \<Rightarrow> string \<Rightarrow> 'w \<Rightarrow> string"
  buildAuditPrompt :: "string \<Rightarrow> string \<Rightarrow> string \<Rightarrow> string"
  COMPRESSION_PROMPT :: string

definition saveSession :: "'w Env \<Rightarrow> Session \<Rightarrow> 'w \<Rightarrow> Session \<times> 'w" where
  "saveSession env session w =
     (let session' = session\<lparr> updatedAt := nowISO env w \<rparr>
      in (session', writeSession env session' w))"

text \<open>\<open>Math.ceil(sum / 4)\<close> over the content lengths.\<close>

definition estimateTokens :: "Message list \<Rightarrow> nat" where
  "estimateTokens messages = (foldl (\<lambda>acc m. acc + length (content m)) 0 messages + 3) div 4"

section \<open>The tool dispatcher (tools/index.ts, tools/interaction.ts)\<close>

definition askUser :: "'w Env \<Rightarrow> string \<Rightarrow> bool \<Rightarrow> 'w \<Rightarrow> (string + string) \<times> 'w" where
  "askUser env q isAutomated w =
     (if isAutomated then (Inr ''ERROR: ASK_USER is disabled in automated mode (-p)'', w)
      else (let (answer, w') = question env q w
            in (Inr (if answer \<noteq> [] then answer else ''(no response)''), w')))"

definition updateTaskList :: string where
  "updateTaskList = ''Task list updated''"

text \<open>The function \<open>done\<close> of tools/interaction.ts.\<close>

definition doneTool :: "string \<Rightarrow> string" where
  "doneTool summary = (if summary \<noteq> [] then summary else ''No summary provided'')"

text \<open>
  \<open>executeTool\<close>. \<open>!content\<close> (here \<open>block\<close>) holds for \<open>null\<close> and for the empty string; \<open>path ||
  input.trim()\<close> takes the trimmed input when the path is empty.
\<close>

definition executeTool ::
  "'w Env \<Rightarrow> ToolName \<Rightarrow> string \<Rightarrow> ToolContext \<Rightarrow> 'w \<Rightarrow> (string + string) \<times> 'w" where
  "executeTool env tool input ctx w =
     (let path = extractPath input
      in case tool of
           LIST_DIRECTORY \<Rightarrow> listDirectory env path (cwd ctx) w
         | READ_FILE \<Rightarrow> readFile env path (cwd ctx) w
         | WRITE_FILE \<Rightarrow>
             (case extractCodeBlock input of
                None \<Rightarrow> (Inr ''ERROR: No code block found for WRITE_FILE'', w)
              | Some block \<Rightarrow>
                  if block = [] then (Inr ''ERROR: No code block found for WRITE_FILE'', w)
                  else writeFile env path block (cwd ctx) w)
         | FIND_AND_REPLACE_IN_FILE \<Rightarrow>
             (case extractFindReplace input of
                None \<Rightarrow> (Inr ''ERROR: Missing find/replace code blocks'', w)
              | Some (f, r) \<Rightarrow> findAndReplace env path f r (cwd ctx) w)
         | COMMAND \<Rightarrow> executeCommand env (extractCommandInput input) (cwd ctx) w
         | UPDATE_TASK_LIST \<Rightarrow> (Inr updateTaskList, w)
         | ASK_USER \<Rightarrow> askUser env input (automated ctx) w
         | DONE \<Rightarrow> (Inr (doneTool input), w)
         | READ_BACKGROUND_PROCESS \<Rightarrow>
             readBackgroundProcess env (if path \<noteq> [] then path else trim input) w
         | LIST_BACKGROUND_PROCESSES \<Rightarrow> listBackgroundProcesses env w
         | KILL_BACKGROUND_PROCESS \<Rightarrow>
             killBackgroundProcess env (if path \<noteq> [] then path else trim input) w)"

section \<open>The audit agent (agent/audit.ts, tools/command.ts)\<close>

text \<open>
  \<open>isAuditAllowed\<close>: the trimmed command against the patterns of
  \<open>ALLOWED_AUDIT_COMMANDS\<close>. \<open>wordThenBlank p\<close> is \<open>/^p\s/\<close>, \<open>wordThenBoundary p\<close> is
  \<open>/^p\b/\<close> for a \<open>p\<close> that ends in a word character, and \<open>afterBlanks\<close> steps over
  the \<open>\s+\<close> that follows a leading word.
\<close>

definition wordThenBlank :: "string \<Rightarrow> string \<Rightarrow> bool" where
  "wordThenBlank p s =
     (startsWith s p \<and> (case drop (length p) s of [] \<Rightarrow> False | c # _ \<Rightarrow> isWhiteSpace c))"

definition wordThenBoundary :: "string \<Rightarrow> string \<Rightarrow> bool" where
  "wordThenBoundary p s =
     (startsWith s p \<and> (case drop (length p) s of [] \<Rightarrow> True | c # _ \<Rightarrow> \<not> isWordChar c))"

definition afterBlanks :: "string \<Rightarrow> string \<Rightarrow> string option" where
  "afterBlanks p s =
     (if wordThenBlank p s then Some (dropWhile isWhiteSpace (drop (length p) s)) else None)"

definition isAuditAllowed :: "string \<Rightarrow> bool" where
  "isAuditAllowed cmd =
     (let t = trim cmd
      in wordThenBlank ''cat'' t \<or> wordThenBlank ''head'' t \<or> wordThenBlank ''tail'' t
         \<or> wordThenBoundary ''ls'' t \<or> wordThenBoundary ''dir'' t \<or> wordThenBoundary ''tree'' t
         \<or> (case afterBlanks ''git'' t of
               None \<Rightarrow> False
             | Some r \<Rightarrow> wordThenBoundary ''status'' r \<or> wordThenBoundary ''diff'' r
                         \<or> wordThenBoundary ''log'' r)
         \<or> (case afterBlanks ''npm'' t of
               None \<Rightarrow> False
             | Some r \<Rightarrow> wordThenBoundary ''test'' r
                         \<or> (case afterBlanks ''run'' r of
                               None \<Rightarrow> False
                             | Some b \<Rightarrow> wordThenBoundary ''build'' b))
         \<or> wordThenBlank ''type'' t)"

record AuditResult =
  passed :: bool
  feedback :: string

text \<open>The task list as the prompts render it: \<open>[x]\<close>, \<open>[~]\<close> or \<open>[ ]\<close> and the text.\<close>

definition renderTask :: "TaskItem \<Rightarrow> string" where
  "renderTask t =
     ''['' @ (if status t = Complete then ''x'' else if status t = InProgress then ''~'' else '' '')
       @ ''] '' @ caption t"

text \<open>
  One turn of the audit loop, \<open>while (loops++ < 20)\<close>: it returns a verdict, or goes on
  with the messages grown by two, or a call throws. The branch \<open>DONE\<close> of the
  \<open>switch\<close> returns; the other branches give the \<open>result\<close> of \<open>auditToolResult\<close>.
  The parameter \<open>verbose\<close> only steers what is printed and is left out.
\<close>

datatype 'w AuditStep =
    AuditReturn AuditResult 'w
  | AuditContinue "Message list" 'w
  | AuditThrow string 'w

definition auditToolResult ::
  "'w Env \<Rightarrow> Session \<Rightarrow> ParsedResponse \<Rightarrow> 'w \<Rightarrow> (string + string) \<times> 'w" where
  "auditToolResult env session parsed w =
     (case firstToolChoice parsed of
        LIST_DIRECTORY \<Rightarrow>
          listDirectory env (extractPath (firstToolInput parsed)) (workingDirectory session) w
      | READ_FILE \<Rightarrow>
          readFile env (extractPath (firstToolInput parsed)) (workingDirectory session) w
      | COMMAND \<Rightarrow>
          (let cmd = extractCommandInput (firstToolInput parsed)
           in if \<not> isAuditAllowed cmd
              then (Inr (''ERROR: Command not allowed in audit mode: '' @ cmd), w)
              else executeCommand env cmd (workingDirectory session) w)
      | other \<Rightarrow> (Inr (''Tool '' @ toolNameString other @ '' not available in audit mode''), w))"

definition auditIteration :: "'w Env \<Rightarrow> Session \<Rightarrow> Message list \<Rightarrow> 'w \<Rightarrow> 'w AuditStep" where
  "auditIteration env session messages w =
     (case streamCompletion env messages w of
        (Inl e, w1) \<Rightarrow> AuditThrow e w1
      | (Inr response, w1) \<Rightarrow>
          (case parseResponse response of
             None \<Rightarrow>
               (let passMatch = includesStr (toLowerCase response) ''overall: pass'';
                    failMatch = includesStr (toLowerCase response) ''overall: fail''
                in if passMatch then AuditReturn \<lparr> passed = True, feedback = response \<rparr> w1
                   else if failMatch then AuditReturn \<lparr> passed = False, feedback = response \<rparr> w1
                   else AuditReturn \<lparr> passed = True, feedback = response \<rparr> w1)
           | Some parsed \<Rightarrow>
               (let messages1 = messages @ [\<lparr> role = Assistant, content = raw parsed \<rparr>]
                in if firstToolChoice parsed = DONE
                   then (let fb = (if firstToolInput parsed \<noteq> [] then firstToolInput parsed
                                   else thoughts parsed)
                         in AuditReturn \<lparr> passed = \<not> includesStr (toLowerCase fb) ''fail'',
                                          feedback = fb \<rparr> w1)
                   else (case auditToolResult env session parsed w1 of
                           (Inl e, w2) \<Rightarrow> AuditThrow e w2
                         | (Inr result, w2) \<Rightarrow>
                             AuditContinue
                               (messages1 @ [\<lparr> role = User, content = ''Tool result:\<newline>'' @ result \<rparr>])
                               w2))))"

function auditLoop ::
  "'w Env \<Rightarrow> Session \<Rightarrow> nat \<Rightarrow> Message list \<Rightarrow> 'w \<Rightarrow> (string + AuditResult) \<times> 'w" where
  "auditLoop env session loops messages w =
     (if loops < 20 then
        (case auditIteration env session messages w of
           AuditReturn r w1 \<Rightarrow> (Inr r, w1)
         | AuditThrow e w1 \<Rightarrow> (Inl e, w1)
         | AuditContinue messages1 w1 \<Rightarrow> auditLoop env session (Suc loops) messages1 w1)
      else (Inr \<lparr> passed = True, feedback = ''Audit completed (max iterations reached)'' \<rparr>, w))"
  by pat_completeness auto
termination
  by (relation "measure (\<lambda>(env, session, loops, messages, w). 20 - loops)") auto

declare auditLoop.simps [simp del]

definition runAudit ::
  "'w Env \<Rightarrow> Session \<Rightarrow> string \<Rightarrow> 'w \<Rightarrow> (string + AuditResult) \<times> 'w" where
  "runAudit env session summary w =
     (let rendered = join ''\<newline>'' (map renderTask (taskList session));
          taskListText = (if rendered \<noteq> [] then rendered else ''(no tasks)'');
          systemPrompt = buildAuditPrompt env (originalPrompt session) taskListText summary
      in auditLoop env session 0 [\<lparr> role = System, content = systemPrompt \<rparr>] w)"

section \<open>Context compression (agent/compress.ts)\<close>

definition needsCompression :: "'w Env \<Rightarrow> Message list \<Rightarrow> 'w \<Rightarrow> bool" where
  "needsCompression env messages w = (maxContextTokens (loadConfig env w) \<le> estimateTokens messages)"

definition roleUpper :: "Role \<Rightarrow> string" where
  "roleUpper r = (case r of System \<Rightarrow> ''SYSTEM'' | User \<Rightarrow> ''USER'' | Assistant \<Rightarrow> ''ASSISTANT'')"

record Compressed =
  newMessages :: "Message list"
  estimateBefore :: nat
  estimateAfter :: nat

text \<open>
  \<open>compressContext\<close>: the result (\<open>newMessages\<close>, \<open>estimateBefore\<close> and
  \<open>estimateAfter\<close> are its \<open>messages\<close>, \<open>tokensBefore\<close> and \<open>tokensAfter\<close>), the session with the record pushed onto \<open>compressions\<close>, and the
  world; or the error of the model call.
\<close>

definition compressionMessages :: "'w Env \<Rightarrow> Session \<Rightarrow> Message list" where
  "compressionMessages env session =
     (let historyText = join ''\<newline>\<newline>---\<newline>\<newline>''
            (map (\<lambda>m. ''['' @ roleUpper (role m) @ '']\<newline>'' @ content m) (history session))
      in [\<lparr> role = System, content = COMPRESSION_PROMPT env \<rparr>,
          \<lparr> role = User, content = ''## Conversation to Summarize\<newline>\<newline>'' @ historyText \<rparr>])"

definition compressContext ::
  "'w Env \<Rightarrow> Session \<Rightarrow> string \<Rightarrow> 'w \<Rightarrow> (string + Compressed \<times> Session) \<times> 'w" where
  "compressContext env session systemPrompt w =
     (let tokensBefore' = estimateTokens (history session)
      in case streamCompletion env (compressionMessages env session) w of
           (Inl e, w1) \<Rightarrow> (Inl e, w1)
         | (Inr summary, w1) \<Rightarrow>
             (let compressedMessages =
                    [\<lparr> role = System, content = systemPrompt \<rparr>,
                     \<lparr> role = User,
                       content = ''[CONTEXT SUMMARY]\<newline>\<newline>'' @ summary
                         @ ''\<newline>\<newline>[ORIGINAL REQUEST]\<newline>\<newline>'' @ originalPrompt session \<rparr>];
                  tokensAfter' = estimateTokens compressedMessages;
                  session1 = session\<lparr> compressions := compressions session @
                    [\<lparr> timestamp = nowISO env w1, tokensBefore = tokensBefore',
                       tokensAfter = tokensAfter' \<rparr>] \<rparr>
              in (Inr (\<lparr> newMessages = compressedMessages, estimateBefore = tokensBefore',
                          estimateAfter = tokensAfter' \<rparr>, session1), w1)))"

section \<open>The agent loop (agent/loop.ts, ui/thinking.ts)\<close>

definition THINKING_PROMPT :: string where
  "THINKING_PROMPT = ''You are a reasoning assistant. Your job is to think carefully about the current situation and what to do next.\<newline>\<newline>Given the tool result below, think step-by-step about:\<newline>1. What did we learn from this result?\<newline>2. Are there any errors or unexpected outcomes to address?\<newline>3. What should we do next and why?\<newline>4. Are we making progress toward the goal?\<newline>\<newline>Be concise but thorough. Focus on insights that will help make the next decision.\<newline>\<newline>DO NOT output any tool calls or action format. Just think out loud.''"

record ThinkingResult =
  thinking :: string
  tokens :: nat

definition performThinking :: "'w Env \<Rightarrow> string \<Rightarrow> string \<Rightarrow> 'w \<Rightarrow> ThinkingResult \<times> 'w" where
  "performThinking env context toolResult w =
     (case streamCompletion env
             [\<lparr> role = System, content = THINKING_PROMPT \<rparr>,
              \<lparr> role = User, content = ''## Context\<newline>'' @ context
                 @ ''\<newline>\<newline>## Latest Tool Result\<newline>'' @ toolResult
                 @ ''\<newline>\<newline>Think about this result and what to do next:'' \<rparr>] w of
        (Inr t, w1) \<Rightarrow> (\<lparr> thinking = trim t, tokens = (length t + 3) div 4 \<rparr>, w1)
      | (Inl e, w1) \<Rightarrow> (\<lparr> thinking = ''(Thinking failed: '' @ e @ '')'', tokens = 0 \<rparr>, w1))"

text \<open>The locals that the loop over the tools of one response leaves behind.\<close>

record ToolRun =
  toolResults :: "string list"
  hitDone :: bool
  doneSummary :: string

text \<open>
  \<open>for (const tool of parsed.tools)\<close>: \<open>DONE\<close> breaks the loop before anything is
  executed for it; an error thrown by \<open>executeTool\<close> becomes the result \<open>ERROR: ...\<close>; a
  result that starts with \<open>ERROR\<close> breaks the loop after it is recorded.
\<close>

fun runTools ::
  "'w Env \<Rightarrow> ToolContext \<Rightarrow> ToolCall list \<Rightarrow> string list \<Rightarrow> 'w \<Rightarrow> ToolRun \<times> 'w" where
  "runTools env ctx [] acc w = (\<lparr> toolResults = acc, hitDone = False, doneSummary = [] \<rparr>, w)"
| "runTools env ctx (tool # rest) acc w =
     (if toolChoice tool = DONE
      then (\<lparr> toolResults = acc, hitDone = True, doneSummary = toolInput tool \<rparr>, w)
      else (case executeTool env (toolChoice tool) (toolInput tool) ctx w of
              (r, w1) \<Rightarrow>
                (let result = (case r of Inr res \<Rightarrow> res | Inl msg \<Rightarrow> ''ERROR: '' @ msg);
                     acc1 = acc @ [''['' @ toolNameString (toolChoice tool) @ '']: '' @ result]
                 in if startsWith result ''ERROR''
                    then (\<lparr> toolResults = acc1, hitDone = False, doneSummary = [] \<rparr>, w1)
                    else runTools env ctx rest acc1 w1)))"

text \<open>
  \<open>// Add combined tool results to history\<close>: the user message of the results, and the
  reflection step when thinking is enabled and \<open>DONE\<close> was not hit.
\<close>

definition recordToolResults :: "'w Env \<Rightarrow> ToolRun \<Rightarrow> Session \<Rightarrow> 'w \<Rightarrow> Session \<times> 'w" where
  "recordToolResults env run session w =
     (if toolResults run \<noteq> [] then
        (let toolResultsContent = ''Tool results:\<newline>'' @ join ''\<newline>\<newline>'' (toolResults run);
             (session1, w1) = saveSession env
               (session\<lparr> history := history session @ [\<lparr> role = User, content = toolResultsContent \<rparr>] \<rparr>) w
         in if isThinkingEnabled env w1 \<and> \<not> hitDone run then
              (let context = ''Original task: '' @ originalPrompt session1
                     @ ''\<newline>\<newline>Current progress: '' @ join ''\<newline>'' (map renderTask (taskList session1));
                   (thinkingResult, w2) = performThinking env context toolResultsContent w1
               in if thinking thinkingResult \<noteq> [] then
                    saveSession env
                      (session1\<lparr> history := history session1 @
                           [\<lparr> role = Assistant,
                              content = ''[Internal Reasoning]\<newline>'' @ thinking thinkingResult \<rparr>],
                         totalTokens := totalTokens session1 + tokens thinkingResult \<rparr>) w2
                  else (session1, w2))
            else (session1, w1))
      else (session, w))"

text \<open>
  How one turn of \<open>while (loops++ < config.maxLoops)\<close> ends: with \<open>continue\<close> (or at the
  end of the body) and the new \<open>retries\<close>, with \<open>return\<close>, or with an error that
  leaves \<open>runAgentLoop\<close>. The session is mutated in place, so it is part of every end.
\<close>

datatype 'w Step =
    Continue nat Session 'w
  | Return Session 'w
  | Throw string Session 'w

text \<open>The session that a turn leaves, however it ends.\<close>

fun stepSession :: "'w Step \<Rightarrow> Session" where
  "stepSession (Continue r s w) = s"
| "stepSession (Return s w) = s"
| "stepSession (Throw e s w) = s"

text \<open>Lines 34 to 39: the compression at the head of the loop body.\<close>

definition compressIfNeeded ::
  "'w Env \<Rightarrow> string \<Rightarrow> Session \<Rightarrow> 'w \<Rightarrow> (string + Session) \<times> 'w" where
  "compressIfNeeded env systemPrompt session w =
     (if needsCompression env (history session) w then
        (case compressContext env session systemPrompt w of
           (Inl e, w1) \<Rightarrow> (Inl e, w1)
         | (Inr (c, session1), w1) \<Rightarrow>
             (let (session2, w2) = saveSession env (session1\<lparr> history := newMessages c \<rparr>) w1
              in (Inr session2, w2)))
      else (Inr session, w))"

definition formatError :: string where
  "formatError = ''ERROR: Your response was not in the correct format. Please use the exact format specified with # Agent Response, ## Thoughts, ## Task List, ## Tool Choice, and ## Tool Input sections.''"

text \<open>Lines 62 to 152: the turn after a response that parsed.\<close>

definition successTurn ::
  "'w Env \<Rightarrow> ToolContext \<Rightarrow> ParsedResponse \<Rightarrow> Session \<Rightarrow> 'w \<Rightarrow> 'w Step" where
  "successTurn env ctx parsed session w =
     (let (session1, w1) = saveSession env
            (session\<lparr> history := history session @ [\<lparr> role = Assistant, content = raw parsed \<rparr>],
                      taskList := map (\<lambda>t. \<lparr> status = status t, caption = caption t \<rparr>) (tasks parsed) \<rparr>) w;
          (run, w2) = runTools env ctx (tools parsed) [] w1;
          (session2, w3) = recordToolResults env run session1 w2
      in if hitDone run then
           (case runAudit env session2 (doneSummary run) w3 of
              (Inl e, w4) \<Rightarrow> Throw e session2 w4
            | (Inr audit, w4) \<Rightarrow>
                if passed audit then Return session2 w4
                else (let (session3, w5) = saveSession env
                            (session2\<lparr> history := history session2 @
                               [\<lparr> role = User,
                                  content = ''AUDIT FAILED. Please address the following issues:\<newline>\<newline>''
                                    @ feedback audit \<rparr>] \<rparr>) w4
                      in Continue 0 session3 w5))
         else Continue 0 session2 w3)"

definition iteration ::
  "'w Env \<Rightarrow> nat \<Rightarrow> string \<Rightarrow> ToolContext \<Rightarrow> nat \<Rightarrow> Session \<Rightarrow> 'w \<Rightarrow> 'w Step" where
  "iteration env maxRetries' systemPrompt ctx retries session w =
     (case compressIfNeeded env systemPrompt session w of
        (Inl e, w1) \<Rightarrow> Throw e session w1
      | (Inr session1, w1) \<Rightarrow>
          (case streamCompletion env (history session1) w1 of
             (Inl e, w2) \<Rightarrow>
               if maxRetries' \<le> Suc retries then Throw e session1 w2
               else Continue (Suc retries) session1 w2
           | (Inr response, w2) \<Rightarrow>
               (let session2 = session1\<lparr> totalTokens := totalTokens session1 + getTokenCount env w2 \<rparr>
                in case parseResponse response of
                     None \<Rightarrow>
                       (let (session3, w3) = saveSession env
                              (session2\<lparr> history := history session2 @
                                 [\<lparr> role = Assistant, content = response \<rparr>,
                                  \<lparr> role = User, content = formatError \<rparr>] \<rparr>) w2
                        in if maxRetries' \<le> Suc retries
                           then Throw ''Max retries exceeded on parse failures'' session3 w3
                           else Continue (Suc retries) session3 w3)
                   | Some parsed \<Rightarrow> successTurn env ctx parsed session2 w2)))"

text \<open>
  How \<open>runAgentLoop\<close> ends: it returns after a passing audit, it throws, or the loop
  runs out and the function returns after printing the line on the loop cap, which
  \<open>LoopCap\<close> carries.
\<close>

datatype Finish = Completed | Failed string | LoopCap string

definition capMessage :: "Config \<Rightarrow> string" where
  "capMessage config = ''\<newline>  Max loops ('' @ showNat (maxLoops config) @ '') reached. Stopping.\<newline>''"

text \<open>The loop with its counter; the result carries the value of \<open>loops\<close> at the end.\<close>

function agentLoop ::
  "'w Env \<Rightarrow> Config \<Rightarrow> nat \<Rightarrow> string \<Rightarrow> ToolContext \<Rightarrow> nat \<Rightarrow> nat \<Rightarrow> Session \<Rightarrow> 'w
     \<Rightarrow> Finish \<times> nat \<times> Session \<times> 'w" where
  "agentLoop env config maxRetries' systemPrompt ctx loops retries session w =
     (if loops < maxLoops config then
        (case iteration env maxRetries' systemPrompt ctx retries session w of
           Continue retries1 session1 w1 \<Rightarrow>
             agentLoop env config maxRetries' systemPrompt ctx (Suc loops) retries1 session1 w1
         | Return session1 w1 \<Rightarrow> (Completed, Suc loops, session1, w1)
         | Throw e session1 w1 \<Rightarrow> (Failed e, Suc loops, session1, w1))
      else (LoopCap (capMessage config), Suc loops, session, w))"
  by pat_completeness auto
termination
  by (relation "measure (\<lambda>(env, config, m, p, ctx, loops, retries, session, w). maxLoops config - loops)")
    auto

declare agentLoop.simps [simp del]

text \<open>\<open>runAgentLoop(session, options)\<close>; \<open>isAutomated\<close> is \<open>options.automated\<close>.\<close>

definition ensureSystemPrompt :: "string \<Rightarrow> Session \<Rightarrow> Session" where
  "ensureSystemPrompt systemPrompt session =
     (let hasSystemPrompt = (case history session of [] \<Rightarrow> False | m # _ \<Rightarrow> role m = System)
      in if \<not> hasSystemPrompt
         then session\<lparr> history := \<lparr> role = System, content = systemPrompt \<rparr> # history session \<rparr>
         else session)"

definition runAgentLoop ::
  "'w Env \<Rightarrow> Session \<Rightarrow> bool \<Rightarrow> 'w \<Rightarrow> Finish \<times> nat \<times> Session \<times> 'w" where
  "runAgentLoop env session isAutomated w =
     (let config = loadConfig env w;
          maxRetries' = (if isAutomated then maxRetriesAutomated config else maxRetries config);
          systemPrompt = buildSystemPrompt env isAutomated (workingDirectory session) w;
          ctx = \<lparr> cwd = workingDirectory session, automated = isAutomated \<rparr>
      in agentLoop env config maxRetries' systemPrompt ctx 0 0
           (ensureSystemPrompt systemPrompt session) w)"

text \<open>
  The run action of the command line (lines 396 to 401 of its file): an error thrown by
  the loop is printed and answered with \<open>process.exit(1)\<close>; when the loop returns, the
  action ends without a call of \<open>process.exit\<close>. The result is the code passed to
  \<open>process.exit\<close>, if it is called.
\<close>

definition runAction :: "'w Env \<Rightarrow> Session \<Rightarrow> bool \<Rightarrow> 'w \<Rightarrow> nat option" where
  "runAction env session isAutomated w =
     (case runAgentLoop env session isAutomated w of
        (Failed e, r) \<Rightarrow> Some 1
      | (other, r) \<Rightarrow> None)"

text \<open>
  The exit code of the process: the argument of \<open>process.exit\<close>, and 0 when the program
  ends without that call (nothing in the sources sets \<open>process.processExitCode\<close>).
\<close>

definition processExitCode :: "nat option \<Rightarrow> nat" where
  "processExitCode called = (case called of Some n \<Rightarrow> n | None \<Rightarrow> 0)"

section \<open>Command execution (tools/command.ts)\<close>

text \<open>
  \<open>executeCommand\<close> returns a promise and registers callbacks: for the data of the two
  output streams, for the \<open>close\<close> and the \<open>error\<close> of the child process, and for the
  timer. Node runs one callback at a time, to its end, so an invocation is the sequence
  of its events, and the state is what the callbacks share: the closure variables
  \<open>output\<close> (here \<open>outputText\<close>) and \<open>resolved\<close>, whether the timer is still pending,
  the registry \<open>processes\<close> and \<open>procCounter\<close>. \<open>resolutions\<close> lists the calls of
  \<open>resolve\<close> in their order; the promise takes the value of the first one.
  \<open>backgroundId\<close> is the id under which the timeout callback has registered the
  process, and with it the second \<open>close\<close> listener. An exit code is a number or
  \<open>null\<close>; \<open>Timeout\<close> carries the clock at that moment.
\<close>

text \<open>\<open>n.toString(36)\<close>: the digits \<open>0-9a-z\<close>.\<close>

definition digit36 :: "nat \<Rightarrow> char" where
  "digit36 d = (if d < 10 then char_of (48 + d) else char_of (87 + d))"

fun digits36 :: "nat \<Rightarrow> nat \<Rightarrow> string" where
  "digits36 0 n = []"
| "digits36 (Suc f) n =
     (if n < 36 then [digit36 n] else digits36 f (n div 36) @ [digit36 (n mod 36)])"

definition toString36 :: "nat \<Rightarrow> string" where
  "toString36 n = digits36 (Suc n) n"

text \<open>\<open>BackgroundProcess\<close> without the process handle; \<open>id\<close> and \<open>output\<close> are \<open>procId\<close> and \<open>procOutput\<close>.\<close>

record BackgroundProcess =
  procId :: string
  command :: string
  procOutput :: string
  exitCode :: "nat option"
  startedAt :: nat

datatype ProcEvent = Data string | Close "nat option" | Error string | Timeout nat

record CommandState =
  outputText :: string
  resolved :: bool
  timerPending :: bool
  backgroundId :: "string option"
  resolutions :: "string list"
  processes :: "string \<rightharpoonup> BackgroundProcess"
  procCounter :: nat

definition genId :: "nat \<Rightarrow> nat \<Rightarrow> string" where
  "genId counter now = ''proc_'' @ toString36 counter
     @ (let t = toString36 now in drop (length t - 4) t)"

definition startCommand :: "(string \<rightharpoonup> BackgroundProcess) \<Rightarrow> nat \<Rightarrow> CommandState" where
  "startCommand registry counter = \<lparr> outputText = [], resolved = False, timerPending = True,
     backgroundId = None, resolutions = [], processes = registry, procCounter = counter \<rparr>"

definition onTimeout :: "string \<Rightarrow> nat \<Rightarrow> nat \<Rightarrow> CommandState \<Rightarrow> CommandState" where
  "onTimeout cmd timeoutSecs now st =
     (if resolved st then st
      else (let counter = Suc (procCounter st);
                pid = genId counter now
            in st\<lparr> resolved := True, procCounter := counter,
                   processes := (processes st)(pid \<mapsto>
                     \<lparr> procId = pid, command = cmd, procOutput = outputText st, exitCode = None,
                       startedAt = now \<rparr>),
                   backgroundId := Some pid,
                   resolutions := resolutions st @
                     [''Command timed out after '' @ showNat timeoutSecs @ ''s. Backgrounded as: '' @ pid] \<rparr>))"

definition onClose :: "nat option \<Rightarrow> CommandState \<Rightarrow> CommandState" where
  "onClose code st =
     (let st1 = st\<lparr> timerPending := False \<rparr>;
          st2 = (if resolved st1 then st1
                 else st1\<lparr> resolved := True,
                           resolutions := resolutions st1 @
                             [if code = Some 0
                              then (if outputText st1 \<noteq> [] then outputText st1 else ''(no output)'')
                              else ''Exit code '' @ (case code of None \<Rightarrow> ''null'' | Some n \<Rightarrow> showNat n)
                                     @ ''\<newline>'' @ outputText st1] \<rparr>)
      in case backgroundId st2 of
           None \<Rightarrow> st2
         | Some pid \<Rightarrow>
             (case processes st2 pid of
                None \<Rightarrow> st2
              | Some p \<Rightarrow> st2\<lparr> processes := (processes st2)(pid \<mapsto>
                            p\<lparr> exitCode := code, procOutput := outputText st2 \<rparr>) \<rparr>))"

definition onError :: "string \<Rightarrow> CommandState \<Rightarrow> CommandState" where
  "onError msg st =
     (let st1 = st\<lparr> timerPending := False \<rparr>
      in if resolved st1 then st1
         else st1\<lparr> resolved := True, resolutions := resolutions st1 @ [''Error: '' @ msg] \<rparr>)"

text \<open>One event. The timer fires only while it is pending: \<open>clearTimeout\<close> and the firing itself end that.\<close>

definition commandStep :: "string \<Rightarrow> nat \<Rightarrow> CommandState \<Rightarrow> ProcEvent \<Rightarrow> CommandState" where
  "commandStep cmd timeoutSecs st e =
     (case e of
        Data d \<Rightarrow> st\<lparr> outputText := outputText st @ d \<rparr>
      | Close code \<Rightarrow> onClose code st
      | Error msg \<Rightarrow> onError msg st
      | Timeout now \<Rightarrow>
          if timerPending st then onTimeout cmd timeoutSecs now (st\<lparr> timerPending := False \<rparr>) else st)"

definition executeCommandEvents ::
  "string \<Rightarrow> nat \<Rightarrow> (string \<rightharpoonup> BackgroundProcess) \<Rightarrow> nat \<Rightarrow> ProcEvent list \<Rightarrow> CommandState" where
  "executeCommandEvents cmd timeoutSecs registry counter events =
     foldl (commandStep cmd timeoutSecs) (startCommand registry counter) events"

text \<open>The events that settle the promise when they come first.\<close>

definition settles :: "ProcEvent \<Rightarrow> bool" where
  "settles e = (case e of Data d \<Rightarrow> False | other \<Rightarrow> True)"

text \<open>The invariant of an invocation.\<close>

definition promiseOk :: "CommandState \<Rightarrow> bool" where
  "promiseOk st = ((resolved st \<longleftrightarrow> resolutions st \<noteq> []) \<and> length (resolutions st) \<le> 1
     \<and> (\<not> resolved st \<longrightarrow> timerPending st))"

section \<open>A scripted world\<close>

text \<open>
  A concrete world in the manner of the repository's mock server (tests/mock-server.ts):
  the model's replies are scripted, a file write is recorded, every other tool answers
  with a fixed text. It serves to run the agent on concrete inputs.
\<close>

record World =
  replies :: "(string + string) list"
  written :: "(string \<times> string) list"
  saved :: "Session list"

definition mockWorld :: "(string + string) list \<Rightarrow> World" where
  "mockWorld rs = \<lparr> replies = rs, written = [], saved = [] \<rparr>"

definition mockConfig :: Config where
  "mockConfig = \<lparr> maxContextTokens = 131072, commandTimeout = 30, maxRetries = 3,
     maxRetriesAutomated = 10, maxLoops = 1000 \<rparr>"

definition mockContext :: ToolContext where
  "mockContext = \<lparr> cwd = ''/work'', automated = True \<rparr>"

definition mockSession :: "Message list \<Rightarrow> Session" where
  "mockSession h = \<lparr> sessionId = ''0f8fad5b-d9cb-469f-a165-70867728950e'',
     createdAt = ''2025-01-01T00:00:00.000Z'', updatedAt = ''2025-01-01T00:00:00.000Z'',
     workingDirectory = ''/work'', originalPrompt = ''Write the file'', taskList = [],
     history = h, totalTokens = 0, compressions = [] \<rparr>"

definition mockReply :: "World \<Rightarrow> (string + string) \<times> World" where
  "mockReply w = (case replies w of
       [] \<Rightarrow> (Inl ''no reply'', w)
     | r # rs \<Rightarrow> (r, w\<lparr> replies := rs \<rparr>))"

definition mockEnv :: "Config \<Rightarrow> World Env" where
  "mockEnv cfg = \<lparr>
     loadConfig = (\<lambda>w. cfg),
     streamCompletion = (\<lambda>messages w. mockReply w),
     getTokenCount = (\<lambda>w. 0),
     listDirectory = (\<lambda>path dir w. (Inr ''(empty directory)'', w)),
     readFile = (\<lambda>path dir w. (Inr (''File not found: '' @ path), w)),
     writeFile = (\<lambda>path text dir w.
        (Inr (''File written: '' @ path), w\<lparr> written := written w @ [(path, text)] \<rparr>)),
     findAndReplace = (\<lambda>path f r dir w. (Inr (''File not found: '' @ path), w)),
     executeCommand = (\<lambda>cmd dir w. (Inr ''(no output)'', w)),
     readBackgroundProcess = (\<lambda>pid w. (Inr (''Process not found: '' @ pid), w)),
     listBackgroundProcesses = (\<lambda>w. (Inr ''No background processes'', w)),
     killBackgroundProcess = (\<lambda>pid w. (Inr (''Process not found: '' @ pid), w)),
     question = (\<lambda>q w. ([], w)),
     isVerbose = (\<lambda>w. False),
     isThinkingEnabled = (\<lambda>w. False),
     nowISO = (\<lambda>w. ''2025-01-01T00:00:00.000Z''),
     writeSession = (\<lambda>session w. w\<lparr> saved := saved w @ [session] \<rparr>),
     buildSystemPrompt = (\<lambda>isAutomated dir w. ''You are an agent.''),
     buildAuditPrompt = (\<lambda>prompt taskText summary. ''You are an auditor.''),
     COMPRESSION_PROMPT = ''Summarize.'' \<rparr>"

section \<open>Predicates and inputs for the properties\<close>

text \<open>
  The parser state after the lines \<open>## Tool Choice\<close>, \<open>WRITE_FILE\<close>, \<open>## Tool Input\<close>
  and an opening fence of four backticks: inside a tool input, inside a code block.
\<close>

definition openBlockState :: ParserState where
  "openBlockState = foldl parseLine initialParserState
     [''## Tool Choice'', ''WRITE_FILE'', ''## Tool Input'', ''````markdown'']"

text \<open>
  A response whose outer fence is never closed before the next tool.
\<close>

definition unclosedReply :: string where
  "unclosedReply = ''# Agent Response\<newline>## Tool Choice\<newline>WRITE_FILE\<newline>## Tool Input\<newline>docs.md\<newline>````markdown\<newline># Docs\<newline>## Tool Choice\<newline>DONE\<newline>## Tool Input\<newline>Wrote docs.''"

text \<open>
  Fences as a reader of the text sees them. A line starts at index 0 and after a line
  terminator. The rest of a line is blank when everything up to the next line terminator,
  or up to the end of the text, is whitespace.
\<close>

definition lineStart :: "string \<Rightarrow> nat \<Rightarrow> bool" where
  "lineStart s i = (i = 0 \<or> (i \<le> length s \<and> isLineTerminator (s ! (i - 1))))"

definition restOfLineBlank :: "string \<Rightarrow> bool" where
  "restOfLineBlank t = list_all isWhiteSpace (takeWhile (\<lambda>c. \<not> isLineTerminator c) t)"

text \<open>
  An opening fence stands at index \<open>i\<close>: a line starts there with a run of three or more
  backticks or tildes, then an info string of word characters (letters, digits and the
  underscore, possibly none), and the rest of the line is blank.
\<close>

definition opensAt :: "string \<Rightarrow> nat \<Rightarrow> bool" where
  "opensAt s i =
     (i < length s \<and> lineStart s i
      \<and> 3 \<le> length (takeWhile isFenceChar (drop i s))
      \<and> restOfLineBlank (dropWhile isWordChar (dropWhile isFenceChar (drop i s))))"

text \<open>
  The text from the first line that is not blank: blank lines are dropped together with
  their line terminators, and nothing is left when only blank lines remain.
\<close>

function skipBlankLines :: "string \<Rightarrow> string" where
  "skipBlankLines u =
     (if list_all isWhiteSpace (takeWhile (\<lambda>c. \<not> isLineTerminator c) u)
      then (case dropWhile (\<lambda>c. \<not> isLineTerminator c) u of
              [] \<Rightarrow> []
            | c # rest \<Rightarrow> skipBlankLines rest)
      else u)"
  by pat_completeness auto
termination
proof (relation "measure length")
  show "wf (measure (length :: string \<Rightarrow> nat))"
    by simp
next
  fix u :: string and c :: char and rest :: string
  assume "dropWhile (\<lambda>c. \<not> isLineTerminator c) u = c # rest"
  then have "length (c # rest) \<le> length u"
    by (metis length_dropWhile_le)
  then show "(rest, u) \<in> measure length"
    by simp
qed

declare skipBlankLines.simps [simp del]

text \<open>
  The text that follows the opening fence at index \<open>i\<close>: it begins with the first line
  after the fence that is not blank.
\<close>

definition contentAfter :: "string \<Rightarrow> nat \<Rightarrow> string" where
  "contentAfter s i = skipBlankLines (dropWhile isWordChar (dropWhile isFenceChar (drop i s)))"

text \<open>
  A closing fence for the character \<open>fc\<close> stands at index \<open>j\<close>: a line starts there with
  a run of three or more \<open>fc\<close>, and the rest of the line is blank.
\<close>

definition closesAt :: "char \<Rightarrow> string \<Rightarrow> nat \<Rightarrow> bool" where
  "closesAt fc s j =
     (j < length s \<and> lineStart s j
      \<and> 3 \<le> length (takeWhile (\<lambda>c. c = fc) (drop j s))
      \<and> restOfLineBlank (dropWhile (\<lambda>c. c = fc) (drop j s)))"






definition nestedInput :: string where
  "nestedInput = ''out.md\<newline>````\<newline>a\<newline>````\<newline>b\<newline>```''"

text \<open>
  An opener whose info string is not made of word characters, and an opener followed by
  blank lines.
\<close>

definition cppInput :: string where
  "cppInput = ''f.cpp\<newline>```c++\<newline>int x;\<newline>```''"

definition blankLinesInput :: string where
  "blankLinesInput = ''a.txt\<newline>```\<newline>\<newline>\<newline>  x\<newline>```''"

text \<open>
  The tools of a list all give a result that does not begin with \<open>ERROR\<close>, each one run
  in the world that the one before has left: the result being, as in the loop over the
  tools, what \<open>executeTool\<close> returns, or \<open>ERROR:\<close> and the message of what it throws.
\<close>

fun noErrorResult :: "'w Env \<Rightarrow> ToolContext \<Rightarrow> ToolCall list \<Rightarrow> 'w \<Rightarrow> bool" where
  "noErrorResult env ctx [] w = True"
| "noErrorResult env ctx (tool # rest) w =
     (case executeTool env (toolChoice tool) (toolInput tool) ctx w of
        (r, w1) \<Rightarrow>
          \<not> startsWith (case r of Inr res \<Rightarrow> res | Inl msg \<Rightarrow> ''ERROR: '' @ msg) ''ERROR''
          \<and> noErrorResult env ctx rest w1)"

text \<open>Inputs and replies for the scripted world.\<close>

definition writeInput :: string where
  "writeInput = ''a.txt\<newline>```\<newline>hi\<newline>```''"

definition donePassReply :: string where
  "donePassReply = ''# Agent Response\<newline>## Thoughts\<newline>Checked the file.\<newline>## Tool Choice\<newline>DONE\<newline>## Tool Input\<newline>Overall: PASS''"

definition doneBareReply :: string where
  "doneBareReply = ''# Agent Response\<newline>## Thoughts\<newline>The tests fail\<newline>## Tool Choice\<newline>DONE\<newline>''"

text \<open>
  A run that ends at the loop cap: the cap is one turn, the model writes a file and
  declares \<open>DONE\<close>, and the audit agent answers with a failing verdict.
\<close>

definition capConfig :: Config where
  "capConfig = mockConfig\<lparr> maxLoops := 1 \<rparr>"

definition writeDoneReply :: string where
  "writeDoneReply = ''# Agent Response\<newline>## Thoughts\<newline>Writing.\<newline>## Tool Choice\<newline>WRITE_FILE\<newline>## Tool Input\<newline>a.txt\<newline>```\<newline>hi\<newline>```\<newline>## Tool Choice\<newline>DONE\<newline>## Tool Input\<newline>Wrote a.txt''"

definition cappedSession :: Session where
  "cappedSession = mockSession [\<lparr> role = User, content = ''Write the file'' \<rparr>]"

definition cappedWorld :: World where
  "cappedWorld = mockWorld [Inr writeDoneReply, Inr doneBareReply]"

definition cappedRun :: "Finish \<times> nat \<times> Session \<times> World" where
  "cappedRun = runAgentLoop (mockEnv capConfig) cappedSession True cappedWorld"

text \<open>A configuration with a small context, and a history beyond it.\<close>

definition smallConfig :: Config where
  "smallConfig = mockConfig\<lparr> maxContextTokens := 4 \<rparr>"

definition longHistory :: "Message list" where
  "longHistory = [\<lparr> role = System, content = ''You are an agent.'' \<rparr>,
     \<lparr> role = User, content = ''Write the file'' \<rparr>,
     \<lparr> role = Assistant, content = ''# Agent Response'' \<rparr>]"

section \<open>Properties of the parser\<close>

lemma startsWith_append: "startsWith s p \<longleftrightarrow> (\<exists>r. s = p @ r)"
  unfolding startsWith_def
  by (metis append_eq_conv_conj append_take_drop_id)

lemma fenceMatch_hash: "startsWith line (CHR ''#'' # p) \<Longrightarrow> fenceMatch line = None"
  by (auto simp: startsWith_append fenceMatch_def isFenceChar_def)

lemma trackFence_hash: "startsWith line (CHR ''#'' # p) \<Longrightarrow> trackFence st line = st"
  by (simp add: trackFence_def fenceMatch_hash)

lemma tool_header_distinct:
  assumes "startsWith line ''## Tool Choice'' \<or> startsWith line ''## Tool Input''"
  shows "\<not> startsWith line ''## Thoughts''" and "\<not> startsWith line ''## Task List''"
  using assms by (auto simp: startsWith_append)

lemma tool_input_not_choice:
  "startsWith line ''## Tool Input'' \<Longrightarrow> \<not> startsWith line ''## Tool Choice''"
  by (auto simp: startsWith_append)

lemma handleLine_tool_choice:
  assumes "currentSection st = SecToolInput" and "startsWith line ''## Tool Choice''"
  shows "handleLine st line =
           (finishCurrentTool st)\<lparr> currentSection := SecToolChoice, inCodeBlock := False \<rparr>"
  using assms tool_header_distinct [of line]
  by (simp add: handleLine_def shouldRecognizeHeader_def isToolChoiceHeader_def)

lemma handleLine_tool_input:
  assumes "currentSection st = SecToolInput" and "startsWith line ''## Tool Input''"
  shows "handleLine st line = st\<lparr> currentSection := SecToolInput, inCodeBlock := False \<rparr>"
  using assms tool_header_distinct [of line] tool_input_not_choice [of line]
  by (simp add: handleLine_def shouldRecognizeHeader_def isToolChoiceHeader_def
        isToolInputHeader_def)

lemma take1_fence_run:
  "3 \<le> length (takeWhile isFenceChar line) \<Longrightarrow> take 1 (takeWhile isFenceChar line) = take 1 line"
  by (cases line) (auto split: if_splits)

lemma openBlockState_eq:
  "openBlockState = \<lparr> accThoughts = [], accTaskList = [], accTools = [],
     currentSection = SecToolInput, currentTool = Some WRITE_FILE, currentInput = ''````markdown'',
     inCodeBlock = True, fenceChar = ''`'', fenceLen = 4 \<rparr>"
  by code_simp

text \<open>
  C4 (as the code has it). While a block is open, a line closes it exactly when its
  leading run of fence characters has three or more characters, starts with the
  character that opened the block, is at least as long as the opening run, and the
  trimmed line holds fence characters only. So a fence whose run is shorter than the
  opening one, or a line that carries anything but fence characters (an info string),
  leaves the fence state as it is; a bare fence of equal length closes the block.
\<close>

theorem fence_closing_rule:
  assumes "inCodeBlock st"
  shows "(\<not> inCodeBlock (trackFence st line) \<longleftrightarrow>
            (3 \<le> length (takeWhile isFenceChar line)
             \<and> take 1 line = fenceChar st
             \<and> fenceLen st \<le> length (takeWhile isFenceChar line)
             \<and> trim line \<noteq> [] \<and> list_all isFenceChar (trim line)))
       \<and> (length (takeWhile isFenceChar line) < fenceLen st \<or> \<not> list_all isFenceChar (trim line)
            \<longrightarrow> trackFence st line = st)"
  using assms take1_fence_run [of line]
  by (auto simp: trackFence_def fenceMatch_def isClosingFence_def onlyFenceChars_def Let_def
           split: option.splits if_splits)

theorem fence_closing_rule_witness:
  "inCodeBlock openBlockState
   \<and> trackFence openBlockState ''```'' = openBlockState
   \<and> trackFence openBlockState ''````js'' = openBlockState
   \<and> \<not> inCodeBlock (trackFence openBlockState ''````'')"
proof -
  have opened: "inCodeBlock openBlockState"
    by (simp add: openBlockState_eq)
  have short: "length (takeWhile isFenceChar ''```'') < fenceLen openBlockState"
    by (simp add: openBlockState_eq isFenceChar_def)
  have info: "\<not> list_all isFenceChar (trim ''````js'')"
    by code_simp
  have bare: "3 \<le> length (takeWhile isFenceChar ''````'')
      \<and> take 1 ''````'' = fenceChar openBlockState
      \<and> fenceLen openBlockState \<le> length (takeWhile isFenceChar ''````'')
      \<and> trim ''````'' \<noteq> [] \<and> list_all isFenceChar (trim ''````'')"
    unfolding openBlockState_eq by code_simp
  from fence_closing_rule [OF opened, of "''```''"] short
  have 1: "trackFence openBlockState ''```'' = openBlockState" by blast
  from fence_closing_rule [OF opened, of "''````js''"] info
  have 2: "trackFence openBlockState ''````js'' = openBlockState" by blast
  from fence_closing_rule [OF opened, of "''````''"] bare
  have 3: "\<not> inCodeBlock (trackFence openBlockState ''````'')" by blast
  from opened 1 2 3 show ?thesis by simp
qed

text \<open>
  C4 (as the claim has it) fails on a bare inner fence of equal length: after an opening
  fence of three backticks, a further line of three backticks closes the block.
\<close>

theorem fence_equal_bare_counterexample:
  "inCodeBlock (trackFence initialParserState ''```'')
   \<and> fenceLen (trackFence initialParserState ''```'') = length ''```''
   \<and> \<not> inCodeBlock (trackFence (trackFence initialParserState ''```'') ''```'')"
  by code_simp

text \<open>
  C6. While the current section is the tool input, a line that starts with
  \<open>## Tool Choice\<close> or \<open>## Tool Input\<close> is taken as a section boundary whatever the
  fence tracking holds, also inside an open code block: the first ends the pending tool
  and opens the tool choice section, the second stays in the tool input section, and both
  leave \<open>inCodeBlock\<close> false.
\<close>

theorem tool_header_in_fence:
  assumes "currentSection st = SecToolInput"
  shows "(startsWith line ''## Tool Choice'' \<longrightarrow>
            parseLine st line =
              (finishCurrentTool st)\<lparr> currentSection := SecToolChoice, inCodeBlock := False \<rparr>)
       \<and> (startsWith line ''## Tool Input'' \<longrightarrow>
            parseLine st line = st\<lparr> currentSection := SecToolInput, inCodeBlock := False \<rparr>)"
proof (intro conjI impI)
  assume h: "startsWith line ''## Tool Choice''"
  then have "trackFence st line = st" by (rule trackFence_hash)
  with assms h show "parseLine st line =
      (finishCurrentTool st)\<lparr> currentSection := SecToolChoice, inCodeBlock := False \<rparr>"
    by (simp add: parseLine_def handleLine_tool_choice)
next
  assume h: "startsWith line ''## Tool Input''"
  then have "trackFence st line = st" by (rule trackFence_hash)
  with assms h show "parseLine st line = st\<lparr> currentSection := SecToolInput, inCodeBlock := False \<rparr>"
    by (simp add: parseLine_def handleLine_tool_input)
qed

theorem tool_header_in_fence_witness:
  "currentSection openBlockState = SecToolInput \<and> inCodeBlock openBlockState
   \<and> startsWith ''## Tool Choice'' ''## Tool Choice''
   \<and> startsWith ''## Tool Input'' ''## Tool Input''
   \<and> parseLine openBlockState ''## Tool Choice'' =
       (finishCurrentTool openBlockState)\<lparr> currentSection := SecToolChoice, inCodeBlock := False \<rparr>
   \<and> accTools (parseLine openBlockState ''## Tool Choice'') =
       [\<lparr> toolChoice = WRITE_FILE, toolInput = ''````markdown'' \<rparr>]
   \<and> parseLine openBlockState ''## Tool Input'' =
       openBlockState\<lparr> currentSection := SecToolInput, inCodeBlock := False \<rparr>
   \<and> map_option tools (parseResponse unclosedReply) =
       Some [\<lparr> toolChoice = WRITE_FILE, toolInput = ''docs.md\<newline>````markdown\<newline># Docs'' \<rparr>,
             \<lparr> toolChoice = DONE, toolInput = ''Wrote docs.'' \<rparr>]"
proof -
  have whole: "map_option tools (parseResponse unclosedReply) =
       Some [\<lparr> toolChoice = WRITE_FILE, toolInput = ''docs.md\<newline>````markdown\<newline># Docs'' \<rparr>,
             \<lparr> toolChoice = DONE, toolInput = ''Wrote docs.'' \<rparr>]"
    by code_simp
  have sec: "currentSection openBlockState = SecToolInput" and blk: "inCodeBlock openBlockState"
    by (simp_all add: openBlockState_eq)
  have c: "startsWith ''## Tool Choice'' ''## Tool Choice''"
    and i: "startsWith ''## Tool Input'' ''## Tool Input''"
    by (simp_all add: startsWith_def)
  from tool_header_in_fence [OF sec, of "''## Tool Choice''"] c
  have 1: "parseLine openBlockState ''## Tool Choice'' =
      (finishCurrentTool openBlockState)\<lparr> currentSection := SecToolChoice, inCodeBlock := False \<rparr>"
    by blast
  have 2: "accTools ((finishCurrentTool openBlockState)\<lparr> currentSection := SecToolChoice,
      inCodeBlock := False \<rparr>) = [\<lparr> toolChoice = WRITE_FILE, toolInput = ''````markdown'' \<rparr>]"
    unfolding openBlockState_eq by code_simp
  from tool_header_in_fence [OF sec, of "''## Tool Input''"] i
  have 3: "parseLine openBlockState ''## Tool Input'' =
      openBlockState\<lparr> currentSection := SecToolInput, inCodeBlock := False \<rparr>"
    by blast
  from sec blk c i 1 2 3 whole show ?thesis by simp
qed

section \<open>Properties of the code block extractor\<close>






































text \<open>Where the fences of the three inputs stand.\<close>

lemma fence_inputs:
  "opensAt nestedInput 7 \<and> contentAfter nestedInput 7 = ''a\<newline>````\<newline>b\<newline>```''
   \<and> closesAt CHR 0x60 (contentAfter nestedInput 7) 9
   \<and> opensAt blankLinesInput 6 \<and> contentAfter blankLinesInput 6 = ''  x\<newline>```''
   \<and> closesAt CHR 0x60 (contentAfter blankLinesInput 6) 4
   \<and> opensAt cppInput 6 = False \<and> opensAt cppInput 20 \<and> contentAfter cppInput 20 = []"
  by code_simp


section \<open>Properties of the tool dispatcher\<close>

text \<open>
  C10. When the code block extracted from the input of \<open>WRITE_FILE\<close> is the empty
  string, \<open>executeTool\<close> answers as it does when no code block is found: with
  \<open>ERROR: No code block found for WRITE_FILE\<close>, and the world is left as it was (the
  write operation is not called).
\<close>

theorem write_file_empty_block:
  assumes "extractCodeBlock input = Some []"
  shows "executeTool env WRITE_FILE input ctx w = (Inr ''ERROR: No code block found for WRITE_FILE'', w)
       \<and> (extractCodeBlock input' = None \<longrightarrow>
            executeTool env WRITE_FILE input' ctx w = executeTool env WRITE_FILE input ctx w)"
  using assms by (simp add: executeTool_def)

theorem write_file_empty_block_witness:
  "extractCodeBlock ''out.txt\<newline>```\<newline>```'' = Some []
   \<and> extractCodeBlock ''out.txt'' = None
   \<and> executeTool (mockEnv mockConfig) WRITE_FILE ''out.txt\<newline>```\<newline>```'' mockContext (mockWorld [])
        = (Inr ''ERROR: No code block found for WRITE_FILE'', mockWorld [])
   \<and> executeTool (mockEnv mockConfig) WRITE_FILE ''out.txt'' mockContext (mockWorld [])
        = executeTool (mockEnv mockConfig) WRITE_FILE ''out.txt\<newline>```\<newline>```'' mockContext (mockWorld [])"
proof -
  have e: "extractCodeBlock ''out.txt\<newline>```\<newline>```'' = Some []"
    by code_simp
  have n: "extractCodeBlock ''out.txt'' = None"
    by code_simp
  from e n write_file_empty_block [OF e, of "mockEnv mockConfig" mockContext "mockWorld []" "''out.txt''"]
  show ?thesis by simp
qed

section \<open>Running the scripted world\<close>

lemma mockEnv_simps:
  "loadConfig (mockEnv cfg) w = cfg"
  "streamCompletion (mockEnv cfg) ms w = mockReply w"
  "getTokenCount (mockEnv cfg) w = 0"
  "writeFile (mockEnv cfg) path body dir w =
     (Inr (''File written: '' @ path), w\<lparr> written := written w @ [(path, body)] \<rparr>)"
  "isVerbose (mockEnv cfg) w = False"
  "isThinkingEnabled (mockEnv cfg) w = False"
  "nowISO (mockEnv cfg) w = ''2025-01-01T00:00:00.000Z''"
  "writeSession (mockEnv cfg) session w = w\<lparr> saved := saved w @ [session] \<rparr>"
  "buildSystemPrompt (mockEnv cfg) a dir w = ''You are an agent.''"
  "buildAuditPrompt (mockEnv cfg) p t sm = ''You are an auditor.''"
  "COMPRESSION_PROMPT (mockEnv cfg) = ''Summarize.''"
  by (simp_all add: mockEnv_def)

lemma file_written_no_error: "\<not> startsWith (''File written: '' @ p) ''ERROR''"
  by (simp add: startsWith_def)

lemma writeInput_block: "extractCodeBlock writeInput = Some ''hi''"
  by code_simp

lemma writeInput_path: "extractPath writeInput = ''a.txt''"
  by code_simp

lemma mock_write:
  "executeTool (mockEnv cfg) WRITE_FILE writeInput ctx w =
     (Inr ''File written: a.txt'', w\<lparr> written := written w @ [(''a.txt'', ''hi'')] \<rparr>)"
  by (simp add: executeTool_def mockEnv_simps writeInput_block writeInput_path Let_def)

lemma donePassReply_parsed:
  "parseResponse donePassReply = Some \<lparr> thoughts = ''Checked the file.'', tasks = [],
     tools = [\<lparr> toolChoice = DONE, toolInput = ''Overall: PASS'' \<rparr>], raw = donePassReply,
     firstToolChoice = DONE, firstToolInput = ''Overall: PASS'' \<rparr>"
  by code_simp

lemma doneBareReply_parsed:
  "parseResponse doneBareReply = Some \<lparr> thoughts = ''The tests fail'', tasks = [],
     tools = [\<lparr> toolChoice = DONE, toolInput = [] \<rparr>], raw = doneBareReply,
     firstToolChoice = DONE, firstToolInput = [] \<rparr>"
  by code_simp

lemma tests_fail_verdict: "includesStr (toLowerCase ''The tests fail'') ''fail''"
  by code_simp

lemma writeDoneReply_parsed:
  "parseResponse writeDoneReply = Some \<lparr> thoughts = ''Writing.'', tasks = [],
     tools = [\<lparr> toolChoice = WRITE_FILE, toolInput = writeInput \<rparr>,
              \<lparr> toolChoice = DONE, toolInput = ''Wrote a.txt'' \<rparr>],
     raw = writeDoneReply, firstToolChoice = WRITE_FILE, firstToolInput = writeInput \<rparr>"
  by code_simp

lemma showNat_1: "showNat (Suc 0) = ''1''"
  by code_simp

lemma cappedRun_eval:
  "fst cappedRun = LoopCap ''\<newline>  Max loops (1) reached. Stopping.\<newline>''
   \<and> fst (snd cappedRun) = 2
   \<and> map role (history (fst (snd (snd cappedRun)))) = [System, User, Assistant, User, User]
   \<and> written (snd (snd (snd cappedRun))) = [(''a.txt'', ''hi'')]"
  by (simp add: cappedRun_def cappedSession_def cappedWorld_def runAgentLoop_def agentLoop.simps iteration_def compressIfNeeded_def
        needsCompression_def estimateTokens_def successTurn_def recordToolResults_def
        saveSession_def ensureSystemPrompt_def runAudit_def auditLoop.simps auditIteration_def
        mockEnv_simps mockReply_def mockWorld_def mockSession_def mockConfig_def capConfig_def
        writeDoneReply_parsed doneBareReply_parsed tests_fail_verdict mock_write
        file_written_no_error [of "''a.txt''", simplified] capMessage_def showNat_1
        Let_def)

lemma garbled: "parseResponse ''Sure, I will do that.'' = None"
  by code_simp

section \<open>Properties of the agent loop\<close>

lemma saveSession_fields:
  "saveSession env s w = (s', w') \<Longrightarrow>
     history s' = history s \<and> compressions s' = compressions s
     \<and> originalPrompt s' = originalPrompt s \<and> taskList s' = taskList s"
  by (auto simp: saveSession_def Let_def)

lemma runTools_no_done:
  "\<forall>t\<in>set pre. toolChoice t \<noteq> DONE \<Longrightarrow>
     \<not> hitDone (fst (runTools env ctx pre acc w)) \<and> doneSummary (fst (runTools env ctx pre acc w)) = []"
proof (induction pre arbitrary: acc w)
  case Nil
  then show ?case by simp
next
  case (Cons t pre)
  then show ?case
    by (simp add: Let_def split: prod.splits)
qed

lemma runTools_append:
  "\<forall>t\<in>set pre. toolChoice t \<noteq> DONE \<Longrightarrow>
     runTools env ctx (pre @ rest) acc w =
       (if noErrorResult env ctx pre w
        then runTools env ctx rest (toolResults (fst (runTools env ctx pre acc w)))
               (snd (runTools env ctx pre acc w))
        else runTools env ctx pre acc w)"
proof (induction pre arbitrary: acc w)
  case Nil
  then show ?case by simp
next
  case (Cons t pre)
  then show ?case
    by (simp add: Let_def split: prod.splits)
qed

lemma runTools_all_results:
  "\<forall>t\<in>set pre. toolChoice t \<noteq> DONE \<Longrightarrow> noErrorResult env ctx pre w \<Longrightarrow>
     length (toolResults (fst (runTools env ctx pre acc w))) = length acc + length pre"
proof (induction pre arbitrary: acc w)
  case Nil
  then show ?case by simp
next
  case (Cons t pre)
  then show ?case
    by (auto simp: Let_def split: prod.splits)
qed

text \<open>
  C2. Let a response list the tools \<open>pre\<close>, none of them \<open>DONE\<close>, then \<open>DONE\<close> with
  input \<open>d\<close>, then the tools \<open>post\<close>. The loop over the tools does not depend on
  \<open>post\<close>. It reaches the \<open>DONE\<close> exactly when no tool of \<open>pre\<close> gives an \<open>ERROR\<close>
  result. Then every tool of \<open>pre\<close> has given its result, \<open>hitDone\<close> is set, the
  summary is \<open>d\<close>, and the results and the world are the ones left by the tools of
  \<open>pre\<close> alone: nothing listed after the \<open>DONE\<close> is executed. Otherwise the loop has
  stopped at the failing tool, before the \<open>DONE\<close>.
\<close>

theorem done_is_terminal:
  assumes "\<forall>t\<in>set pre. toolChoice t \<noteq> DONE"
  shows "runTools env ctx (pre @ \<lparr> toolChoice = DONE, toolInput = d \<rparr> # post) acc w
           = runTools env ctx (pre @ [\<lparr> toolChoice = DONE, toolInput = d \<rparr>]) acc w
       \<and> (hitDone (fst (runTools env ctx (pre @ \<lparr> toolChoice = DONE, toolInput = d \<rparr> # post) acc w))
            \<longleftrightarrow> noErrorResult env ctx pre w)
       \<and> (noErrorResult env ctx pre w \<longrightarrow>
            runTools env ctx (pre @ \<lparr> toolChoice = DONE, toolInput = d \<rparr> # post) acc w
              = ((fst (runTools env ctx pre acc w))\<lparr> hitDone := True, doneSummary := d \<rparr>,
                 snd (runTools env ctx pre acc w))
            \<and> length (toolResults (fst (runTools env ctx pre acc w))) = length acc + length pre)
       \<and> (\<not> noErrorResult env ctx pre w \<longrightarrow>
            runTools env ctx (pre @ \<lparr> toolChoice = DONE, toolInput = d \<rparr> # post) acc w
              = runTools env ctx pre acc w)"
proof -
  let ?done = "\<lparr> toolChoice = DONE, toolInput = d \<rparr>"
  let ?R = "runTools env ctx pre acc w"
  have full: "runTools env ctx (pre @ ?done # rest) acc w =
      (if noErrorResult env ctx pre w
       then (\<lparr> toolResults = toolResults (fst ?R), hitDone = True, doneSummary = d \<rparr>, snd ?R)
       else ?R)" for rest
    using runTools_append [OF assms, of env ctx "?done # rest" acc w] by simp
  from runTools_no_done [OF assms, of env ctx acc w]
  have flag: "\<not> hitDone (fst ?R)" and summary: "doneSummary (fst ?R) = []"
    by simp_all
  have reached: "(fst ?R)\<lparr> hitDone := True, doneSummary := d \<rparr>
      = \<lparr> toolResults = toolResults (fst ?R), hitDone = True, doneSummary = d \<rparr>"
    by simp
  show ?thesis
  proof (cases "noErrorResult env ctx pre w")
    case True
    with full [of post] full [of "[]"] reached runTools_all_results [OF assms True, of acc]
    show ?thesis by simp
  next
    case False
    with full [of post] full [of "[]"] flag show ?thesis by simp
  qed
qed

theorem done_is_terminal_witness:
  "noErrorResult (mockEnv mockConfig) mockContext
     [\<lparr> toolChoice = WRITE_FILE, toolInput = writeInput \<rparr>] (mockWorld [])
   \<and> runTools (mockEnv mockConfig) mockContext
     ([\<lparr> toolChoice = WRITE_FILE, toolInput = writeInput \<rparr>]
        @ \<lparr> toolChoice = DONE, toolInput = ''all done'' \<rparr>
        # [\<lparr> toolChoice = WRITE_FILE, toolInput = writeInput \<rparr>])
     [] (mockWorld [])
   = (\<lparr> toolResults = [''[WRITE_FILE]: File written: a.txt''], hitDone = True,
        doneSummary = ''all done'' \<rparr>,
      \<lparr> replies = [], written = [(''a.txt'', ''hi'')], saved = [] \<rparr>)"
proof -
  let ?pre = "[\<lparr> toolChoice = WRITE_FILE, toolInput = writeInput \<rparr>]"
  let ?post = "[\<lparr> toolChoice = WRITE_FILE, toolInput = writeInput \<rparr>]"
  have nodone: "\<forall>t\<in>set ?pre. toolChoice t \<noteq> DONE"
    by simp
  have before: "runTools (mockEnv mockConfig) mockContext ?pre [] (mockWorld [])
      = (\<lparr> toolResults = [''[WRITE_FILE]: File written: a.txt''], hitDone = False, doneSummary = [] \<rparr>,
         \<lparr> replies = [], written = [(''a.txt'', ''hi'')], saved = [] \<rparr>)"
    by (simp add: mock_write file_written_no_error [of "''a.txt''", simplified]
          toolNameString_def mockWorld_def)
  have clean: "noErrorResult (mockEnv mockConfig) mockContext ?pre (mockWorld [])"
    by (simp add: mock_write file_written_no_error [of "''a.txt''", simplified])
  from done_is_terminal [OF nodone, of "mockEnv mockConfig" mockContext "''all done''" ?post "[]" "mockWorld []"]
    clean
  have "runTools (mockEnv mockConfig) mockContext
      (?pre @ \<lparr> toolChoice = DONE, toolInput = ''all done'' \<rparr> # ?post) [] (mockWorld [])
      = ((fst (runTools (mockEnv mockConfig) mockContext ?pre [] (mockWorld [])))
            \<lparr> hitDone := True, doneSummary := ''all done'' \<rparr>,
         snd (runTools (mockEnv mockConfig) mockContext ?pre [] (mockWorld [])))"
    by blast
  with clean show ?thesis
    unfolding before by simp
qed

text \<open>
  C7. When the history needs compression and the model answers the compression request
  with \<open>summary\<close>, the head of the loop body leaves a session whose history is exactly two
  messages, the system prompt passed in and a user message made of the summary and the
  original prompt, unchanged, in the form \<open>[CONTEXT SUMMARY]\<close>, \<open>[ORIGINAL REQUEST]\<close>;
  and \<open>compressions\<close> has grown by exactly one record of the time and the two estimates.
\<close>

theorem compression_replaces_history:
  assumes "needsCompression env (history session) w"
    and "streamCompletion env (compressionMessages env session) w = (Inr summary, w1)"
  shows "\<exists>session' w'. compressIfNeeded env systemPrompt session w = (Inr session', w')
      \<and> history session' =
          [\<lparr> role = System, content = systemPrompt \<rparr>,
           \<lparr> role = User, content = ''[CONTEXT SUMMARY]\<newline>\<newline>'' @ summary
               @ ''\<newline>\<newline>[ORIGINAL REQUEST]\<newline>\<newline>'' @ originalPrompt session \<rparr>]
      \<and> compressions session' = compressions session @
          [\<lparr> timestamp = nowISO env w1, tokensBefore = estimateTokens (history session),
             tokensAfter = estimateTokens (history session') \<rparr>]
      \<and> originalPrompt session' = originalPrompt session"
  using assms
  by (simp add: compressIfNeeded_def compressContext_def saveSession_def Let_def)

theorem compression_replaces_history_witness:
  "needsCompression (mockEnv smallConfig) (history (mockSession longHistory)) (mockWorld [Inr ''Did it.''])
   \<and> (\<exists>session' w'.
        compressIfNeeded (mockEnv smallConfig) ''New prompt'' (mockSession longHistory)
            (mockWorld [Inr ''Did it.'']) = (Inr session', w')
        \<and> history session' =
            [\<lparr> role = System, content = ''New prompt'' \<rparr>,
             \<lparr> role = User, content =
                ''[CONTEXT SUMMARY]\<newline>\<newline>Did it.\<newline>\<newline>[ORIGINAL REQUEST]\<newline>\<newline>Write the file'' \<rparr>]
        \<and> length (compressions session') = 1)"
proof -
  have needs: "needsCompression (mockEnv smallConfig) (history (mockSession longHistory))
      (mockWorld [Inr ''Did it.''])"
    by (simp add: needsCompression_def estimateTokens_def mockEnv_simps smallConfig_def
          mockSession_def longHistory_def)
  have answer: "streamCompletion (mockEnv smallConfig)
      (compressionMessages (mockEnv smallConfig) (mockSession longHistory)) (mockWorld [Inr ''Did it.''])
      = (Inr ''Did it.'', mockWorld [])"
    by (simp add: mockEnv_simps mockReply_def mockWorld_def)
  from compression_replaces_history [OF needs answer, of "''New prompt''"]
  obtain session' w' where
    "compressIfNeeded (mockEnv smallConfig) ''New prompt'' (mockSession longHistory)
        (mockWorld [Inr ''Did it.'']) = (Inr session', w')"
    and "history session' =
          [\<lparr> role = System, content = ''New prompt'' \<rparr>,
           \<lparr> role = User, content = ''[CONTEXT SUMMARY]\<newline>\<newline>'' @ ''Did it.''
               @ ''\<newline>\<newline>[ORIGINAL REQUEST]\<newline>\<newline>'' @ originalPrompt (mockSession longHistory) \<rparr>]"
    and "compressions session' = compressions (mockSession longHistory) @
          [\<lparr> timestamp = nowISO (mockEnv smallConfig) (mockWorld []),
             tokensBefore = estimateTokens (history (mockSession longHistory)),
             tokensAfter = estimateTokens (history session') \<rparr>]"
    by blast
  then have "compressIfNeeded (mockEnv smallConfig) ''New prompt'' (mockSession longHistory)
        (mockWorld [Inr ''Did it.'']) = (Inr session', w')
      \<and> history session' =
            [\<lparr> role = System, content = ''New prompt'' \<rparr>,
             \<lparr> role = User, content =
                ''[CONTEXT SUMMARY]\<newline>\<newline>Did it.\<newline>\<newline>[ORIGINAL REQUEST]\<newline>\<newline>Write the file'' \<rparr>]
      \<and> length (compressions session') = 1"
    by (simp add: mockSession_def)
  with needs show ?thesis by blast
qed

lemma saveSession_history: "history (fst (saveSession env s w)) = history s"
  by (simp add: saveSession_def Let_def)

lemma compressIfNeeded_history:
  assumes "compressIfNeeded env sp s w = (Inr s1, w1)"
  shows "history s1 = history s \<or> length (history s1) = 2"
  using assms
  by (auto simp: compressIfNeeded_def compressContext_def saveSession_def Let_def
           split: if_splits prod.splits sum.splits)

lemma recordToolResults_history:
  "\<exists>added. history (fst (recordToolResults env run s w)) = history s @ added
       \<and> length added \<le> (if hitDone run then 1 else 2)"
  by (auto simp: recordToolResults_def saveSession_def Let_def split: prod.splits)

lemma successTurn_history:
  "\<exists>added. history (stepSession (successTurn env ctx parsed s w))
        = history s @ \<lparr> role = Assistant, content = raw parsed \<rparr> # added
      \<and> length added \<le> 2"
proof -
  obtain s1 w1 where a: "saveSession env
            (s\<lparr> history := history s @ [\<lparr> role = Assistant, content = raw parsed \<rparr>],
                      taskList := map (\<lambda>t. \<lparr> status = status t, caption = caption t \<rparr>) (tasks parsed) \<rparr>) w = (s1, w1)"
    by fastforce
  from saveSession_fields [OF this]
  have h1: "history s1 = history s @ [\<lparr> role = Assistant, content = raw parsed \<rparr>]"
    by simp
  obtain run w2 where b: "runTools env ctx (tools parsed) [] w1 = (run, w2)"
    by fastforce
  obtain s2 w3 where c: "recordToolResults env run s1 w2 = (s2, w3)"
    by fastforce
  from recordToolResults_history [of env run s1 w2] c
  obtain added where h2: "history s2 = history s1 @ added"
    and l2: "length added \<le> (if hitDone run then 1 else 2)"
    by auto
  show ?thesis
  proof (cases "hitDone run")
    case False
    with a b c have "successTurn env ctx parsed s w = Continue 0 s2 w3"
      by (simp add: successTurn_def)
    with h1 h2 l2 False show ?thesis by simp
  next
    case True
    obtain r w4 where d: "runAudit env s2 (doneSummary run) w3 = (r, w4)"
      by fastforce
    show ?thesis
    proof (cases r)
      case (Inl e)
      with a b c d True have "successTurn env ctx parsed s w = Throw e s2 w4"
        by (simp add: successTurn_def)
      with h1 h2 l2 True show ?thesis by simp
    next
      case (Inr audit)
      show ?thesis
      proof (cases "passed audit")
        case True
        with a b c d Inr \<open>hitDone run\<close> have "successTurn env ctx parsed s w = Return s2 w4"
          by (simp add: successTurn_def)
        with h1 h2 l2 \<open>hitDone run\<close> show ?thesis by simp
      next
        case False
        obtain s3 w5 where e: "saveSession env (s2\<lparr> history := history s2 @
              [\<lparr> role = User, content = ''AUDIT FAILED. Please address the following issues:\<newline>\<newline>''
                  @ feedback audit \<rparr>] \<rparr>) w4 = (s3, w5)"
          by fastforce
        from saveSession_fields [OF e]
        have h3: "history s3 = history s2 @
              [\<lparr> role = User, content = ''AUDIT FAILED. Please address the following issues:\<newline>\<newline>''
                  @ feedback audit \<rparr>]"
          by simp
        from a b c d e Inr False \<open>hitDone run\<close>
        have "successTurn env ctx parsed s w = Continue 0 s3 w5"
          by (simp add: successTurn_def)
        with h1 h2 h3 l2 \<open>hitDone run\<close> show ?thesis by simp
      qed
    qed
  qed
qed

lemma iteration_history:
  "length (history (stepSession (iteration env m sp ctx retries s w))) \<le> max (length (history s)) 2 + 3"
proof -
  obtain c w1 where a: "compressIfNeeded env sp s w = (c, w1)" by fastforce
  show ?thesis
  proof (cases c)
    case (Inl e)
    with a show ?thesis by (simp add: iteration_def)
  next
    case (Inr s1)
    with a compressIfNeeded_history [of env sp s w s1 w1]
    have l1: "length (history s1) \<le> max (length (history s)) 2" by auto
    obtain r w2 where b: "streamCompletion env (history s1) w1 = (r, w2)" by fastforce
    show ?thesis
    proof (cases r)
      case (Inl e)
      with a b \<open>c = Inr s1\<close> l1 show ?thesis by (simp add: iteration_def)
    next
      case (Inr response)
      show ?thesis
      proof (cases "parseResponse response")
        case None
        obtain s3 w3 where e: "saveSession env
              (s1\<lparr> totalTokens := totalTokens s1 + getTokenCount env w2,
                   history := history s1 @
                     [\<lparr> role = Assistant, content = response \<rparr>,
                      \<lparr> role = User, content = formatError \<rparr>] \<rparr>) w2 = (s3, w3)"
          by fastforce
        from saveSession_fields [OF e]
        have "history s3 = history s1 @
            [\<lparr> role = Assistant, content = response \<rparr>, \<lparr> role = User, content = formatError \<rparr>]"
          by simp
        with a b e \<open>c = Inr s1\<close> Inr None l1 show ?thesis
          by (simp add: iteration_def Let_def)
      next
        case (Some parsed)
        let ?s2 = "s1\<lparr> totalTokens := totalTokens s1 + getTokenCount env w2 \<rparr>"
        from successTurn_history [of env ctx parsed ?s2 w2]
        have "length (history (stepSession (successTurn env ctx parsed ?s2 w2))) \<le> length (history s1) + 3"
          by auto
        with a b \<open>c = Inr s1\<close> Inr Some l1 show ?thesis
          by (simp add: iteration_def Let_def)
      qed
    qed
  qed
qed


lemma agentLoop_history:
  "agentLoop env config m sp ctx loops retries s w = (fin, loops', s', w') \<Longrightarrow>
     loops < loops' \<and>
     length (history s') \<le> max (length (history s)) 2 + 3 * (min loops' (maxLoops config) - loops)"
proof (induction env config m sp ctx loops retries s w arbitrary: fin loops' s' w' rule: agentLoop.induct)
  case (1 env config m sp ctx loops retries s w)
  note run = "1.prems"
  show ?case
  proof (cases "loops < maxLoops config")
    case False
    with run show ?thesis
      by (simp add: agentLoop.simps [of env config m sp ctx loops])
  next
    case True
    from iteration_history [of env m sp ctx retries s w]
    have step: "length (history (stepSession (iteration env m sp ctx retries s w)))
        \<le> max (length (history s)) 2 + 3" .
    show ?thesis
    proof (cases "iteration env m sp ctx retries s w")
      case (Continue r1 s1 w1)
      with run True
      have "agentLoop env config m sp ctx (Suc loops) r1 s1 w1 = (fin, loops', s', w')"
        by (simp add: agentLoop.simps [of env config m sp ctx loops])
      from "1.IH" [OF True Continue this]
      have ih: "Suc loops < loops'"
        "length (history s') \<le> max (length (history s1)) 2 + 3 * (min loops' (maxLoops config) - Suc loops)"
        by simp_all
      from ih(1) True
      have k: "min loops' (maxLoops config) - loops = Suc (min loops' (maxLoops config) - Suc loops)"
        by arith
      from step Continue have "max (length (history s1)) 2 \<le> max (length (history s)) 2 + 3"
        by simp
      with ih(2) have "length (history s')
          \<le> max (length (history s)) 2 + 3 * Suc (min loops' (maxLoops config) - Suc loops)"
        by simp
      with ih(1) k show ?thesis
        by simp
    next
      case (Return s1 w1)
      with run True step show ?thesis
        by (auto simp: agentLoop.simps [of env config m sp ctx loops] min_def)
    next
      case (Throw e s1 w1)
      with run True step show ?thesis
        by (auto simp: agentLoop.simps [of env config m sp ctx loops] min_def)
    qed
  qed
qed

lemma agentLoop_counter:
  "agentLoop env config m sp ctx loops retries s w = (fin, loops', s', w') \<Longrightarrow>
   loops \<le> maxLoops config \<Longrightarrow>
     loops' \<le> Suc (maxLoops config)
     \<and> (loops' = Suc (maxLoops config) \<longleftrightarrow> fin = LoopCap (capMessage config))
     \<and> (\<forall>msg. fin = LoopCap msg \<longrightarrow> msg = capMessage config)"
proof (induction env config m sp ctx loops retries s w rule: agentLoop.induct)
  case (1 env config m sp ctx loops retries s w)
  show ?case
  proof (cases "loops < maxLoops config")
    case False
    with "1.prems" show ?thesis
      by (auto simp: agentLoop.simps [of env config m sp ctx loops])
  next
    case True
    show ?thesis
    proof (cases "iteration env m sp ctx retries s w")
      case (Continue r1 s1 w1)
      with "1.prems" True
      have "agentLoop env config m sp ctx (Suc loops) r1 s1 w1 = (fin, loops', s', w')"
        by (simp add: agentLoop.simps [of env config m sp ctx loops])
      moreover from True have "Suc loops \<le> maxLoops config" by simp
      ultimately show ?thesis
        by (rule "1.IH" [OF True Continue])
    next
      case (Return s1 w1)
      with "1.prems" True show ?thesis
        by (auto simp: agentLoop.simps [of env config m sp ctx loops])
    next
      case (Throw e s1 w1)
      with "1.prems" True show ?thesis
        by (auto simp: agentLoop.simps [of env config m sp ctx loops])
    qed
  qed
qed

lemma ensureSystemPrompt_length:
  "length (history (ensureSystemPrompt sp s)) \<le> length (history s) + 1
   \<and> 1 \<le> length (history (ensureSystemPrompt sp s))"
  by (auto simp: ensureSystemPrompt_def Let_def split: list.splits)

lemma parse_failure_history:
  assumes "compressIfNeeded env sp s w = (Inr s1, w1)"
    and "streamCompletion env (history s1) w1 = (Inr response, w2)"
    and "parseResponse response = None"
  shows "history (stepSession (iteration env m sp ctx retries s w))
           = history s1 @ [\<lparr> role = Assistant, content = response \<rparr>,
                           \<lparr> role = User, content = formatError \<rparr>]"
proof -
  obtain s3 w3 where e: "saveSession env
        (s1\<lparr> totalTokens := totalTokens s1 + getTokenCount env w2,
             history := history s1 @
               [\<lparr> role = Assistant, content = response \<rparr>,
                \<lparr> role = User, content = formatError \<rparr>] \<rparr>) w2 = (s3, w3)"
    by fastforce
  from saveSession_fields [OF e]
  have "history s3 = history s1 @
      [\<lparr> role = Assistant, content = response \<rparr>, \<lparr> role = User, content = formatError \<rparr>]"
    by simp
  with assms e show ?thesis
    by (simp add: iteration_def Let_def)
qed

lemma runAgentLoop_history:
  assumes "runAgentLoop env session isAutomated w = (fin, loops', session', w')"
  shows "length (history session')
           \<le> max (length (history session) + 1) 2 + 3 * min loops' (maxLoops (loadConfig env w))"
proof -
  let ?sp = "buildSystemPrompt env isAutomated (workingDirectory session) w"
  from assms agentLoop_history [of env "loadConfig env w" _ ?sp _ 0 0 "ensureSystemPrompt ?sp session" w fin loops' session' w']
  have "length (history session') \<le> max (length (history (ensureSystemPrompt ?sp session))) 2
          + 3 * (min loops' (maxLoops (loadConfig env w)) - 0)"
    by (simp add: runAgentLoop_def Let_def)
  with ensureSystemPrompt_length [of ?sp session] show ?thesis
    by (simp add: max_def split: if_splits)
qed

text \<open>
  C3 (as the code has it). \<open>loops\<close> counts the tests of the loop condition, so the
  number of turns of a run is the smaller of its final value and the cap. After \<open>n\<close>
  turns the history holds at most \<open>3n\<close> messages more than at the start of the loop,
  where it holds the initial history and the system prompt, or two messages if a
  compression has replaced a shorter history. For a turn whose response parses, the
  history grows by the assistant entry of the response and at most two entries more (the
  tool results, then the reflection or the failed audit); a parse failure adds exactly
  the raw response and the complaint.
\<close>

theorem history_growth:
  "(runAgentLoop env session isAutomated w = (fin, loops', session', w') \<longrightarrow>
      length (history session')
        \<le> max (length (history session) + 1) 2 + 3 * min loops' (maxLoops (loadConfig env w)))
   \<and> (\<exists>added. history (stepSession (successTurn env ctx parsed s v))
          = history s @ \<lparr> role = Assistant, content = raw parsed \<rparr> # added
        \<and> length added \<le> 2)
   \<and> (compressIfNeeded env sp s v = (Inr sc, vc)
        \<and> streamCompletion env (history sc) vc = (Inr response, vr)
        \<and> parseResponse response = None \<longrightarrow>
      history (stepSession (iteration env m sp ctx retries s v))
        = history sc @ [\<lparr> role = Assistant, content = response \<rparr>,
                        \<lparr> role = User, content = formatError \<rparr>])"
  using runAgentLoop_history [of env session isAutomated w fin loops' session' w']
    successTurn_history [of env ctx parsed s v]
    parse_failure_history [of env sp s v sc vc response vr m ctx retries]
  by blast

theorem history_growth_witness:
  "length (history (fst (snd (snd cappedRun)))) = 5
   \<and> max (length (history cappedSession) + 1) 2
        + 3 * min (fst (snd cappedRun)) (maxLoops (loadConfig (mockEnv capConfig) cappedWorld)) = 5
   \<and> history (stepSession (iteration (mockEnv mockConfig) 10 ''You are an agent.'' mockContext 0
        (mockSession [\<lparr> role = System, content = ''You are an agent.'' \<rparr>])
        (mockWorld [Inr ''Sure, I will do that.''])))
      = [\<lparr> role = System, content = ''You are an agent.'' \<rparr>,
         \<lparr> role = Assistant, content = ''Sure, I will do that.'' \<rparr>,
         \<lparr> role = User, content = formatError \<rparr>]"
proof -
  let ?s = "mockSession [\<lparr> role = System, content = ''You are an agent.'' \<rparr>]"
  let ?v = "mockWorld [Inr ''Sure, I will do that.'']"
  have run: "runAgentLoop (mockEnv capConfig) cappedSession True cappedWorld
      = (fst cappedRun, fst (snd cappedRun), fst (snd (snd cappedRun)), snd (snd (snd cappedRun)))"
    by (simp add: cappedRun_def)
  have nocomp: "compressIfNeeded (mockEnv mockConfig) ''You are an agent.'' ?s ?v = (Inr ?s, ?v)"
    by (simp add: compressIfNeeded_def needsCompression_def estimateTokens_def mockEnv_simps
          mockConfig_def mockSession_def)
  have reply: "streamCompletion (mockEnv mockConfig) (history ?s) ?v
      = (Inr ''Sure, I will do that.'', mockWorld [])"
    by (simp add: mockEnv_simps mockReply_def mockWorld_def)
  note inst1 = history_growth [where env = "mockEnv capConfig" and session = cappedSession
      and isAutomated = True and w = cappedWorld and fin = "fst cappedRun"
      and loops' = "fst (snd cappedRun)" and session' = "fst (snd (snd cappedRun))"
      and w' = "snd (snd (snd cappedRun))"]
  note inst2 = history_growth [where env = "mockEnv mockConfig" and sp = "''You are an agent.''"
      and s = ?s and v = ?v and sc = ?s and vc = ?v and response = "''Sure, I will do that.''"
      and vr = "mockWorld []" and m = 10 and ctx = mockContext and retries = 0]
  from inst1 run have bound: "length (history (fst (snd (snd cappedRun))))
      \<le> max (length (history cappedSession) + 1) 2
          + 3 * min (fst (snd cappedRun)) (maxLoops (loadConfig (mockEnv capConfig) cappedWorld))"
    by blast
  from cappedRun_eval have "length (map role (history (fst (snd (snd cappedRun))))) = 5"
    by simp
  then have len: "length (history (fst (snd (snd cappedRun)))) = 5"
    by simp
  have rhs: "max (length (history cappedSession) + 1) 2
        + 3 * min (fst (snd cappedRun)) (maxLoops (loadConfig (mockEnv capConfig) cappedWorld)) = 5"
    using cappedRun_eval by (simp add: cappedSession_def mockSession_def mockEnv_simps capConfig_def)
  from inst2 nocomp reply garbled
  have pf: "history (stepSession (iteration (mockEnv mockConfig) 10 ''You are an agent.'' mockContext 0 ?s ?v))
      = history ?s @ [\<lparr> role = Assistant, content = ''Sure, I will do that.'' \<rparr>,
                      \<lparr> role = User, content = formatError \<rparr>]"
    by blast
  from bound len rhs pf show ?thesis
    by (simp add: mockSession_def)
qed

text \<open>
  C3 (as the claim has it) fails on the run above: in its one turn the history grows
  from one message to five, by the system prompt, the assistant entry and two user
  entries, the tool results and the failed audit; the claim allows three.
\<close>

theorem history_bound_counterexample:
  "length (history cappedSession) = 1
   \<and> fst (snd cappedRun) = 2
   \<and> map role (history (fst (snd (snd cappedRun)))) = [System, User, Assistant, User, User]
   \<and> \<not> length (history (fst (snd (snd cappedRun)))) \<le> length (history cappedSession) + (2 * 1 + 1)"
proof -
  from cappedRun_eval have "length (map role (history (fst (snd (snd cappedRun))))) = 5"
    by simp
  then have "length (history (fst (snd (snd cappedRun)))) = 5"
    by simp
  with cappedRun_eval show ?thesis
    by (simp add: cappedSession_def mockSession_def)
qed

lemma runAction_fst:
  "runAction env session isAutomated w =
     (case fst (runAgentLoop env session isAutomated w) of Failed e \<Rightarrow> Some 1 | other \<Rightarrow> None)"
  by (simp add: runAction_def split: prod.splits Finish.splits)

text \<open>
  C1 (as the code has it). The counter \<open>loops\<close> ends one beyond the configured cap
  exactly when the loop has run out, that is when the run ends with the line that reports
  the configured cap. \<open>runAgentLoop\<close> then returns as it does after a passing audit:
  nothing is thrown, the run action does not call \<open>process.exit(1)\<close>, and the exit code
  is 0.
\<close>

theorem loop_cap_returns:
  assumes "runAgentLoop env session isAutomated w = (fin, loops', session', w')"
  shows "(loops' = Suc (maxLoops (loadConfig env w)) \<longleftrightarrow> fin = LoopCap (capMessage (loadConfig env w)))
       \<and> (loops' = Suc (maxLoops (loadConfig env w)) \<longrightarrow>
            runAction env session isAutomated w = None
            \<and> processExitCode (runAction env session isAutomated w) = 0)
       \<and> (\<forall>msg. fin = LoopCap msg \<longrightarrow> msg = capMessage (loadConfig env w))"
proof -
  let ?config = "loadConfig env w"
  from assms have "agentLoop env ?config
      (if isAutomated then maxRetriesAutomated ?config else maxRetries ?config)
      (buildSystemPrompt env isAutomated (workingDirectory session) w)
      \<lparr> cwd = workingDirectory session, automated = isAutomated \<rparr> 0 0
      (ensureSystemPrompt (buildSystemPrompt env isAutomated (workingDirectory session) w) session) w
      = (fin, loops', session', w')"
    by (simp add: runAgentLoop_def Let_def)
  from agentLoop_counter [OF this]
  have counter: "loops' = Suc (maxLoops ?config) \<longleftrightarrow> fin = LoopCap (capMessage ?config)"
    and msg: "\<forall>msg. fin = LoopCap msg \<longrightarrow> msg = capMessage ?config"
    by simp_all
  have "runAction env session isAutomated w = None
      \<and> processExitCode (runAction env session isAutomated w) = 0"
    if "fin = LoopCap (capMessage ?config)"
    using that assms by (simp add: runAction_def processExitCode_def)
  with counter msg show ?thesis by blast
qed

theorem loop_cap_returns_witness:
  "fst (snd cappedRun) = Suc (maxLoops (loadConfig (mockEnv capConfig) cappedWorld))
   \<and> fst cappedRun = LoopCap (capMessage (loadConfig (mockEnv capConfig) cappedWorld))
   \<and> capMessage (loadConfig (mockEnv capConfig) cappedWorld) = ''\<newline>  Max loops (1) reached. Stopping.\<newline>''
   \<and> runAction (mockEnv capConfig) cappedSession True cappedWorld = None
   \<and> processExitCode (runAction (mockEnv capConfig) cappedSession True cappedWorld) = 0"
proof -
  have run: "runAgentLoop (mockEnv capConfig) cappedSession True cappedWorld
      = (fst cappedRun, fst (snd cappedRun), fst (snd (snd cappedRun)), snd (snd (snd cappedRun)))"
    by (simp add: cappedRun_def)
  have cap: "maxLoops (loadConfig (mockEnv capConfig) cappedWorld) = 1"
    by (simp add: mockEnv_simps capConfig_def)
  from cappedRun_eval cap
  have counter: "fst (snd cappedRun) = Suc (maxLoops (loadConfig (mockEnv capConfig) cappedWorld))"
    by simp
  have line: "capMessage (loadConfig (mockEnv capConfig) cappedWorld) = ''\<newline>  Max loops (1) reached. Stopping.\<newline>''"
    by (simp add: capMessage_def mockEnv_simps capConfig_def showNat_1)
  from loop_cap_returns [OF run] counter
  have "fst cappedRun = LoopCap (capMessage (loadConfig (mockEnv capConfig) cappedWorld))
      \<and> runAction (mockEnv capConfig) cappedSession True cappedWorld = None
      \<and> processExitCode (runAction (mockEnv capConfig) cappedSession True cappedWorld) = 0"
    by blast
  with counter line show ?thesis
    by blast
qed

text \<open>
  C1 (as the claim has it) fails on the run above: the cap of one turn is reached after
  a failed audit, the cap is reported, and the exit code is not 1.
\<close>

theorem loop_cap_exit_counterexample:
  "fst cappedRun = LoopCap ''\<newline>  Max loops (1) reached. Stopping.\<newline>''
   \<and> runAction (mockEnv capConfig) cappedSession True cappedWorld = None
   \<and> processExitCode (runAction (mockEnv capConfig) cappedSession True cappedWorld) \<noteq> 1"
proof -
  from cappedRun_eval show ?thesis
    by (simp add: runAction_fst processExitCode_def cappedRun_def [symmetric])
qed

section \<open>Properties of command execution\<close>

lemma step_promiseOk: "promiseOk st \<Longrightarrow> promiseOk (commandStep cmd t st e)"
  by (cases e)
     (auto simp: promiseOk_def commandStep_def onClose_def onError_def onTimeout_def Let_def
           split: option.splits)

lemma step_resolved:
  "promiseOk st \<Longrightarrow> resolved st \<Longrightarrow> resolutions (commandStep cmd t st e) = resolutions st"
  by (cases e)
     (auto simp: promiseOk_def commandStep_def onClose_def onError_def onTimeout_def Let_def
           split: option.splits)

lemma step_settles:
  "promiseOk st \<Longrightarrow> settles e \<Longrightarrow> resolved (commandStep cmd t st e)"
  by (cases e)
     (auto simp: promiseOk_def settles_def commandStep_def onClose_def onError_def onTimeout_def Let_def
           split: option.splits)

lemma steps_promiseOk: "promiseOk st \<Longrightarrow> promiseOk (foldl (commandStep cmd t) st es)"
  by (induction es arbitrary: st) (simp_all add: step_promiseOk)

lemma steps_resolved:
  "promiseOk st \<Longrightarrow> resolved st \<Longrightarrow> resolutions (foldl (commandStep cmd t) st es) = resolutions st"
proof (induction es arbitrary: st)
  case Nil
  then show ?case by simp
next
  case (Cons e es)
  from Cons.prems have ok: "promiseOk (commandStep cmd t st e)" by (simp add: step_promiseOk)
  from Cons.prems have same: "resolutions (commandStep cmd t st e) = resolutions st"
    by (rule step_resolved)
  with Cons.prems ok have "resolved (commandStep cmd t st e)" by (simp add: promiseOk_def)
  from Cons.IH [OF ok this] same show ?case by simp
qed

lemma steps_settles:
  "promiseOk st \<Longrightarrow> list_ex settles es \<Longrightarrow> resolved (foldl (commandStep cmd t) st es)"
proof (induction es arbitrary: st)
  case Nil
  then show ?case by simp
next
  case (Cons e es)
  from Cons.prems have ok: "promiseOk (commandStep cmd t st e)" by (simp add: step_promiseOk)
  show ?case
  proof (cases "settles e")
    case True
    with Cons.prems have r: "resolved (commandStep cmd t st e)" by (simp add: step_settles)
    from steps_promiseOk [OF ok, of cmd t es] steps_resolved [OF ok r, of cmd t es] r ok
    show ?thesis by (auto simp: promiseOk_def)
  next
    case False
    with Cons.prems have "list_ex settles es" by simp
    from Cons.IH [OF ok this] show ?thesis by simp
  qed
qed

lemma start_promiseOk: "promiseOk (startCommand registry counter)"
  by (simp add: promiseOk_def startCommand_def)

text \<open>
  C9. Whatever events an invocation sees, \<open>resolve\<close> is called at most once; it is
  called exactly once as soon as a \<open>close\<close>, an \<open>error\<close> or the timeout has occurred;
  and once one of them has occurred, the events that follow add no call and leave the
  value of the promise as it is.
\<close>

theorem resolves_once:
  "length (resolutions (executeCommandEvents cmd t registry counter (earlier @ later))) \<le> 1
   \<and> (list_ex settles (earlier @ later) \<longrightarrow>
        length (resolutions (executeCommandEvents cmd t registry counter (earlier @ later))) = 1)
   \<and> (list_ex settles earlier \<longrightarrow>
        resolutions (executeCommandEvents cmd t registry counter (earlier @ later))
          = resolutions (executeCommandEvents cmd t registry counter earlier))"
proof -
  let ?s1 = "executeCommandEvents cmd t registry counter earlier"
  let ?s2 = "executeCommandEvents cmd t registry counter (earlier @ later)"
  have ok1: "promiseOk ?s1" and ok2: "promiseOk ?s2"
    unfolding executeCommandEvents_def by (rule steps_promiseOk [OF start_promiseOk])+
  have s2: "?s2 = foldl (commandStep cmd t) ?s1 later"
    by (simp add: executeCommandEvents_def)
  have a: "length (resolutions ?s2) \<le> 1"
    using ok2 by (simp add: promiseOk_def)
  have b: "length (resolutions ?s2) = 1" if "list_ex settles (earlier @ later)"
  proof -
    from that have "resolved ?s2"
      unfolding executeCommandEvents_def by (rule steps_settles [OF start_promiseOk])
    with ok2 show ?thesis
      by (cases "resolutions ?s2") (auto simp: promiseOk_def)
  qed
  have c: "resolutions ?s2 = resolutions ?s1" if "list_ex settles earlier"
  proof -
    from that have "resolved ?s1"
      unfolding executeCommandEvents_def by (rule steps_settles [OF start_promiseOk])
    from steps_resolved [OF ok1 this] s2 show ?thesis by simp
  qed
  from a b c show ?thesis by blast
qed


theorem resolves_once_witness:
  "list_ex settles [Data ''tick'', Timeout 1700]
   \<and> resolutions (executeCommandEvents ''sleep 60'' 30 Map.empty 0
         ([Data ''tick'', Timeout 1700] @ [Data ''tock'', Close (Some 0), Error ''late'', Timeout 1800]))
       = [''Command timed out after 30s. Backgrounded as: proc_11b8'']"
proof -
  have first: "list_ex settles [Data ''tick'', Timeout 1700]"
    by (simp add: settles_def)
  have pid: "genId (Suc 0) 1700 = ''proc_11b8''"
    by code_simp
  have secs: "showNat 30 = ''30''"
    by code_simp
  have promoted: "resolutions (executeCommandEvents ''sleep 60'' 30 Map.empty 0
      [Data ''tick'', Timeout 1700]) = [''Command timed out after 30s. Backgrounded as: proc_11b8'']"
    by (simp add: executeCommandEvents_def startCommand_def commandStep_def onTimeout_def pid secs
          Let_def)
  from resolves_once [of "''sleep 60''" 30 Map.empty 0 "[Data ''tick'', Timeout 1700]"
      "[Data ''tock'', Close (Some 0), Error ''late'', Timeout 1800]"] first
  have "resolutions (executeCommandEvents ''sleep 60'' 30 Map.empty 0
         ([Data ''tick'', Timeout 1700] @ [Data ''tock'', Close (Some 0), Error ''late'', Timeout 1800]))
      = resolutions (executeCommandEvents ''sleep 60'' 30 Map.empty 0 [Data ''tick'', Timeout 1700])"
    by blast
  with first promoted show ?thesis
    by (simp only:)
qed

section \<open>Properties of the audit agent\<close>

text \<open>
  C8 (as the code has it). When a response of the audit agent parses and its first tool
  is \<open>DONE\<close>, the audit returns at once. The text it judges is the input of the \<open>DONE\<close>,
  or the thoughts of the response when that input is empty; the verdict is a pass exactly
  when this text, in lower case, does not contain \<open>fail\<close>.
\<close>

theorem audit_done_verdict:
  assumes "loops < 20"
    and "streamCompletion env messages w = (Inr response, w1)"
    and "parseResponse response = Some parsed"
    and "firstToolChoice parsed = DONE"
  shows "auditLoop env session loops messages w =
           (Inr \<lparr> passed = \<not> includesStr (toLowerCase
                      (if firstToolInput parsed \<noteq> [] then firstToolInput parsed
                       else thoughts parsed)) ''fail'',
                   feedback = (if firstToolInput parsed \<noteq> [] then firstToolInput parsed
                               else thoughts parsed) \<rparr>, w1)"
  using assms
  by (simp add: auditLoop.simps auditIteration_def Let_def)

theorem audit_done_verdict_witness:
  "auditLoop (mockEnv mockConfig) (mockSession []) 0 [\<lparr> role = System, content = ''You are an auditor.'' \<rparr>]
     (mockWorld [Inr donePassReply])
   = (Inr \<lparr> passed = True, feedback = ''Overall: PASS'' \<rparr>, mockWorld [])"
proof -
  have answer: "streamCompletion (mockEnv mockConfig) [\<lparr> role = System, content = ''You are an auditor.'' \<rparr>]
      (mockWorld [Inr donePassReply]) = (Inr donePassReply, mockWorld [])"
    by (simp add: mockEnv_simps mockReply_def mockWorld_def)
  have verdict: "\<not> includesStr (toLowerCase ''Overall: PASS'') ''fail''"
    by code_simp
  from audit_done_verdict [OF _ answer donePassReply_parsed, of 0 "mockSession []"] verdict
  show ?thesis by simp
qed

text \<open>
  C8 (as the claim has it) fails when the \<open>DONE\<close> has no input: the verdict is then
  taken from the thoughts. Here the input of the \<open>DONE\<close> is empty, so it does not contain
  \<open>fail\<close>, and the audit fails all the same.
\<close>

theorem audit_thoughts_counterexample:
  "map_option firstToolChoice (parseResponse doneBareReply) = Some DONE
   \<and> map_option firstToolInput (parseResponse doneBareReply) = Some []
   \<and> \<not> includesStr (toLowerCase []) ''fail''
   \<and> fst (runAudit (mockEnv mockConfig) (mockSession []) ''Did it.'' (mockWorld [Inr doneBareReply]))
       = Inr \<lparr> passed = False, feedback = ''The tests fail'' \<rparr>"
proof -
  have empty: "\<not> includesStr (toLowerCase []) ''fail''"
    by (simp add: toLowerCase_def)
  have verdict: "fst (runAudit (mockEnv mockConfig) (mockSession []) ''Did it.''
      (mockWorld [Inr doneBareReply])) = Inr \<lparr> passed = False, feedback = ''The tests fail'' \<rparr>"
    by (simp add: doneBareReply_parsed tests_fail_verdict runAudit_def auditLoop.simps
          auditIteration_def mockEnv_simps mockReply_def mockWorld_def Let_def)
  from empty verdict show ?thesis
    by (simp add: doneBareReply_parsed)
qed

end
